theory Spec2Isabelle
  imports Main "HOL-Library.Word" "HOL-Library.Multiset"
begin

unbundle bit_operations_syntax

section \<open>Host utilities of the Signaloid C0-microSD+\<close>

text \<open>
  A shallow embedding of \<^verbatim>\<open>src/c/lib/C0microSDPlusHostUtils.c\<close> and of the constants of
  \<^verbatim>\<open>src/c/include/C0microSDPlusConstants.h\<close>.

  Integer types are those of an LP64 host: \<^verbatim>\<open>size_t\<close>, \<^verbatim>\<open>ssize_t\<close> and \<^verbatim>\<open>off_t\<close> are
  64 bits wide (the signed ones are read with \<open>sint\<close>), \<^verbatim>\<open>uint32_t\<close> is a \<open>32 word\<close>, and
  the enumeration \<^verbatim>\<open>SignaloidSoCStatus\<close> is a 4-byte integer, which is what the source
  assumes when it reads \<^verbatim>\<open>sizeof(uint32_t)\<close> bytes into a variable of that type. File
  descriptors (C \<^verbatim>\<open>int\<close>) never overflow and are \<open>int\<close>.
\<close>

type_synonym byte = "8 word"
type_synonym uint32_t = "32 word"
type_synonym size_t = "64 word"
type_synonym ssize_t = "64 word"
type_synonym off_t = "64 word"

subsection \<open>C0microSDPlusConstants.h\<close>

text \<open>\<^verbatim>\<open>enum SignaloidSoCConstants\<close>: the enumerators are C \<^verbatim>\<open>int\<close> constants.\<close>

definition kSignaloidSoCConstantsCommandOffset :: int where
  "kSignaloidSoCConstantsCommandOffset = 0x01000000"

definition kSignaloidSoCConstantsConfigOffset :: int where
  "kSignaloidSoCConstantsConfigOffset = 0x01000004"

definition kSignaloidSoCConstantsBootAddressOffset :: int where
  "kSignaloidSoCConstantsBootAddressOffset = 0x01000008"

definition kSignaloidSoCConstantsStatusOffset :: int where
  "kSignaloidSoCConstantsStatusOffset = 0x0100000C"

definition kSignaloidSoCConstantsMMIOBufferOffset :: int where
  "kSignaloidSoCConstantsMMIOBufferOffset = 0x01004000"

definition kSignaloidSoCConstantsMMIOBufferSizeBytes :: int where
  "kSignaloidSoCConstantsMMIOBufferSizeBytes = 8192"

definition kSignaloidSoCConstantsMMIOBufferSizeWords :: int where
  "kSignaloidSoCConstantsMMIOBufferSizeWords = 2048"

text \<open>\<^verbatim>\<open>enum SignaloidC0microSDPlusConstants\<close>\<close>

definition kSignaloidSoCConstantsBootloaderOffset :: int where
  "kSignaloidSoCConstantsBootloaderOffset = 0x00100000"

definition kSignaloidSoCConstantsApplicationOffset :: int where
  "kSignaloidSoCConstantsApplicationOffset = 0x00180000"

definition kSignaloidSoCConstantsMainMemoryOffset :: int where
  "kSignaloidSoCConstantsMainMemoryOffset = 0x01080000"

text \<open>
  \<^verbatim>\<open>SignaloidSoCStatus\<close>. A C enumeration is an integer type: a variable of the type
  holds any 32-bit pattern, and the four enumerators are names for four of them.
\<close>

type_synonym SignaloidSoCStatus = "32 word"

definition kSignaloidSoCStatusWaitingForCommand :: SignaloidSoCStatus where
  "kSignaloidSoCStatusWaitingForCommand = 0"

definition kSignaloidSoCStatusCalculating :: SignaloidSoCStatus where
  "kSignaloidSoCStatusCalculating = 1"

definition kSignaloidSoCStatusDone :: SignaloidSoCStatus where
  "kSignaloidSoCStatusDone = 2"

definition kSignaloidSoCStatusInvalidCommand :: SignaloidSoCStatus where
  "kSignaloidSoCStatusInvalidCommand = 3"

subsection \<open>Objects in memory\<close>

text \<open>
  The source passes \<^verbatim>\<open>(void *) &x\<close> for a 32-bit \<^verbatim>\<open>x\<close> to the raw transactions, so the
  bytes on the device are the object representation of \<^verbatim>\<open>x\<close> in the byte order of the
  host.
\<close>

datatype endianness = LittleEndian | BigEndian

definition bytes_of_uint32 :: "endianness \<Rightarrow> uint32_t \<Rightarrow> byte list" where
  "bytes_of_uint32 e w =
     (let lsb_first = [ucast w, ucast (drop_bit 8 w), ucast (drop_bit 16 w), ucast (drop_bit 24 w)]
      in case e of LittleEndian \<Rightarrow> lsb_first | BigEndian \<Rightarrow> rev lsb_first)"

fun uint32_of_lsb_first :: "byte list \<Rightarrow> uint32_t" where
  "uint32_of_lsb_first [] = 0"
| "uint32_of_lsb_first (b # bs) = ucast b OR push_bit 8 (uint32_of_lsb_first bs)"

definition uint32_of_bytes :: "endianness \<Rightarrow> byte list \<Rightarrow> uint32_t" where
  "uint32_of_bytes e bs =
     (case e of LittleEndian \<Rightarrow> uint32_of_lsb_first (take 4 bs)
              | BigEndian \<Rightarrow> uint32_of_lsb_first (rev (take 4 bs)))"

text \<open>C's conversions between \<^verbatim>\<open>bool\<close> and \<^verbatim>\<open>uint32_t\<close>.\<close>

definition uint32_of_bool :: "bool \<Rightarrow> uint32_t" where
  "uint32_of_bool b = (if b then 1 else 0)"

definition bool_of_uint32 :: "uint32_t \<Rightarrow> bool" where
  "bool_of_uint32 w = (w \<noteq> 0)"

subsection \<open>The config register's flag fields\<close>

text \<open>
  The value \<^verbatim>\<open>reg_val\<close> that \<^verbatim>\<open>hostUtilsSetSignaloidSoCConfigRegisterUnpacked\<close> builds
  before it writes the register (lines 177 to 181 of the source).
\<close>

definition packConfigRegister :: "bool \<Rightarrow> bool \<Rightarrow> bool \<Rightarrow> bool \<Rightarrow> uint32_t" where
  "packConfigRegister rstn unlock_bitstream_section sw_led_enable sw_led =
     (let reg_val = 0;
          reg_val = reg_val OR push_bit 0 (uint32_of_bool rstn AND 0x1);
          reg_val = reg_val OR push_bit 1 (uint32_of_bool unlock_bitstream_section AND 0x1);
          reg_val = reg_val OR push_bit 2 (uint32_of_bool sw_led_enable AND 0x1);
          reg_val = reg_val OR push_bit 3 (uint32_of_bool sw_led AND 0x1)
      in reg_val)"

text \<open>
  The four values that \<^verbatim>\<open>hostUtilsGetSignaloidSoCConfigRegisterUnpacked\<close> stores through
  its pointer arguments, from the register value it has read (lines 163 to 166).
\<close>

definition unpackConfigRegister :: "uint32_t \<Rightarrow> bool \<times> bool \<times> bool \<times> bool" where
  "unpackConfigRegister reg_val =
     (bool_of_uint32 (drop_bit 0 reg_val AND 0x1),
      bool_of_uint32 (drop_bit 1 reg_val AND 0x1),
      bool_of_uint32 (drop_bit 2 reg_val AND 0x1),
      bool_of_uint32 (drop_bit 3 reg_val AND 0x1))"

subsection \<open>The host's system calls\<close>

text \<open>
  \<^verbatim>\<open>open\<close>, \<^verbatim>\<open>lseek\<close>, \<^verbatim>\<open>read\<close>, \<^verbatim>\<open>write\<close> and \<^verbatim>\<open>close\<close> belong to the host, not to the
  library; their behaviour here follows POSIX. The library is modelled over any host: a
  record of the five calls as functions on a kernel state \<open>'k\<close>, together with the byte
  order of the machine, so that a statement about every host covers every way in which a
  call can succeed or fail. What a call returns is the C return value: \<open>-1\<close> is the failure value of \<^verbatim>\<open>open\<close> and \<^verbatim>\<open>lseek\<close>;
  \<^verbatim>\<open>read\<close> yields \<open>None\<close> for \<open>-1\<close> and otherwise the bytes it has transferred, \<^verbatim>\<open>write\<close>
  yields \<open>None\<close> for \<open>-1\<close> and otherwise the number of bytes it has transferred.
\<close>

datatype open_flag = O_RDONLY | O_WRONLY | O_SYNC | O_DSYNC

record 'k posix =
  byte_order :: endianness
  sys_open :: "string \<Rightarrow> open_flag set \<Rightarrow> 'k \<Rightarrow> int \<times> 'k"
  sys_lseek :: "int \<Rightarrow> off_t \<Rightarrow> 'k \<Rightarrow> off_t \<times> 'k"
  sys_read :: "int \<Rightarrow> size_t \<Rightarrow> 'k \<Rightarrow> byte list option \<times> 'k"
  sys_write :: "int \<Rightarrow> byte list \<Rightarrow> size_t \<Rightarrow> 'k \<Rightarrow> nat option \<times> 'k"
  sys_close :: "int \<Rightarrow> 'k \<Rightarrow> int \<times> 'k"

text \<open>
  The state of the calling process: the kernel's state, the descriptors the process
  holds (a multiset: one entry for each successful \<^verbatim>\<open>open\<close>, removed by \<^verbatim>\<open>close\<close>), and
  the messages it has sent to \<^verbatim>\<open>perror\<close>.
\<close>

record 'k process =
  kernel_state :: 'k
  open_handles :: "int multiset"
  stderr_log :: "string list"

definition SSIZE_MAX :: nat where
  "SSIZE_MAX = 2 ^ 63 - 1"

definition posix_open ::
  "'k posix \<Rightarrow> string \<Rightarrow> open_flag set \<Rightarrow> 'k process \<Rightarrow> int \<times> 'k process" where
  "posix_open k path flags p =
     (let (fd, s) = sys_open k path flags (kernel_state p)
      in (fd, p\<lparr>kernel_state := s,
                open_handles := (if fd = -1 then open_handles p
                                 else add_mset fd (open_handles p))\<rparr>))"

definition posix_lseek ::
  "'k posix \<Rightarrow> int \<Rightarrow> off_t \<Rightarrow> 'k process \<Rightarrow> off_t \<times> 'k process" where
  "posix_lseek k fd offset p =
     (let (r, s) = sys_lseek k fd offset (kernel_state p)
      in (r, p\<lparr>kernel_state := s\<rparr>))"

text \<open>
  \<^verbatim>\<open>read(fd, buf, nbyte)\<close>: a successful call transfers at most \<open>nbyte\<close> and at most
  \<open>SSIZE_MAX\<close> bytes to the start of the buffer, and returns their number.
\<close>

definition posix_read ::
  "'k posix \<Rightarrow> int \<Rightarrow> byte list \<Rightarrow> size_t \<Rightarrow> 'k process \<Rightarrow> ssize_t \<times> byte list \<times> 'k process" where
  "posix_read k fd buf nbyte p =
     (let (r, s) = sys_read k fd nbyte (kernel_state p);
          p' = p\<lparr>kernel_state := s\<rparr>
      in case r of
           None \<Rightarrow> (-1, buf, p')
         | Some bytes \<Rightarrow>
             (let got = take (min (unat nbyte) SSIZE_MAX) bytes
              in (word_of_nat (length got), got @ drop (length got) buf, p')))"

definition posix_write ::
  "'k posix \<Rightarrow> int \<Rightarrow> byte list \<Rightarrow> size_t \<Rightarrow> 'k process \<Rightarrow> ssize_t \<times> 'k process" where
  "posix_write k fd buf nbyte p =
     (let (r, s) = sys_write k fd buf nbyte (kernel_state p);
          p' = p\<lparr>kernel_state := s\<rparr>
      in case r of
           None \<Rightarrow> (-1, p')
         | Some n \<Rightarrow> (word_of_nat (min n (min (unat nbyte) SSIZE_MAX)), p'))"

text \<open>
  \<^verbatim>\<open>close\<close> releases the descriptor; the source ignores its return value.
\<close>

definition posix_close :: "'k posix \<Rightarrow> int \<Rightarrow> 'k process \<Rightarrow> 'k process" where
  "posix_close k fd p =
     p\<lparr>kernel_state := snd (sys_close k fd (kernel_state p)),
       open_handles := open_handles p - {#fd#}\<rparr>"

definition perror :: "string \<Rightarrow> 'k process \<Rightarrow> 'k process" where
  "perror msg p = p\<lparr>stderr_log := stderr_log p @ [msg]\<rparr>"

text \<open>\<^verbatim>\<open>exit(EXIT_FAILURE)\<close> ends the process: the function that calls it does not return.\<close>

datatype process_exit = ProcessExit int

definition EXIT_FAILURE :: int where
  "EXIT_FAILURE = 1"

subsection \<open>Raw transactions\<close>

definition hostUtilsReadFromC0microSDPlus ::
  "'k posix \<Rightarrow> string \<Rightarrow> byte list \<Rightarrow> size_t \<Rightarrow> off_t \<Rightarrow> 'k process
     \<Rightarrow> ssize_t \<times> byte list \<times> 'k process" where
  "hostUtilsReadFromC0microSDPlus k device destBuffer bufferSize offset p0 =
     (let (fd, p1) = posix_open k device {O_RDONLY, O_SYNC, O_DSYNC} p0
      in if fd = -1 then (-1, destBuffer, perror ''Error opening device'' p1)
         else
           (let (seek_offset, p2) = posix_lseek k fd offset p1
            in if seek_offset = -1
               then (-1, destBuffer,
                     posix_close k fd (perror ''Error seeking to target offset'' p2))
               else
                 (let (result, destBuffer', p3) = posix_read k fd destBuffer bufferSize p2;
                      p4 = (if result \<noteq> bufferSize
                            then perror ''Error reading data from the device'' p3 else p3)
                  in (result, destBuffer', posix_close k fd p4))))"

definition hostUtilsWriteToC0microSDPlus ::
  "'k posix \<Rightarrow> string \<Rightarrow> byte list \<Rightarrow> size_t \<Rightarrow> off_t \<Rightarrow> 'k process
     \<Rightarrow> ssize_t \<times> 'k process" where
  "hostUtilsWriteToC0microSDPlus k device sourceBuffer bufferSize offset p0 =
     (let (fd, p1) = posix_open k device {O_WRONLY, O_SYNC, O_DSYNC} p0
      in if fd = -1 then (-1, perror ''Error opening device'' p1)
         else
           (let (seek_offset, p2) = posix_lseek k fd offset p1
            in if seek_offset = -1
               then (-1, posix_close k fd (perror ''Error seeking to target offset'' p2))
               else
                 (let (result, p3) = posix_write k fd sourceBuffer bufferSize p2;
                      p4 = (if result \<noteq> bufferSize
                            then perror ''Error writing data to the device'' p3 else p3)
                  in (result, posix_close k fd p4))))"

subsection \<open>Register access\<close>

text \<open>
  A function that may call \<^verbatim>\<open>exit\<close> returns \<open>Inl\<close> of the exit or \<open>Inr\<close> of its
  value, with the state of the process. A 4-byte local variable that the source hands to
  a raw read is uninitialised; it is read only after a transfer of all 4 bytes, so its
  first contents, zeroes here, never reach a result.
\<close>

definition hostUtilsReadSignaloidSoCMMIOBuffer ::
  "'k posix \<Rightarrow> string \<Rightarrow> byte list \<Rightarrow> 'k process \<Rightarrow> (process_exit + byte list) \<times> 'k process" where
  "hostUtilsReadSignaloidSoCMMIOBuffer k device destBuffer p =
     (let (res, destBuffer', p') =
            hostUtilsReadFromC0microSDPlus k device destBuffer
              (word_of_int kSignaloidSoCConstantsMMIOBufferSizeBytes)
              (word_of_int kSignaloidSoCConstantsMMIOBufferOffset) p
      in if sint res \<noteq> kSignaloidSoCConstantsMMIOBufferSizeBytes
         then (Inl (ProcessExit EXIT_FAILURE), p')
         else (Inr destBuffer', p'))"

definition hostUtilsWriteSignaloidSoCMMIOBuffer ::
  "'k posix \<Rightarrow> string \<Rightarrow> byte list \<Rightarrow> 'k process \<Rightarrow> (process_exit + unit) \<times> 'k process" where
  "hostUtilsWriteSignaloidSoCMMIOBuffer k device sourceBuffer p =
     (let (res, p') =
            hostUtilsWriteToC0microSDPlus k device sourceBuffer
              (word_of_int kSignaloidSoCConstantsMMIOBufferSizeBytes)
              (word_of_int kSignaloidSoCConstantsMMIOBufferOffset) p
      in if sint res \<noteq> kSignaloidSoCConstantsMMIOBufferSizeBytes
         then (Inl (ProcessExit EXIT_FAILURE), p')
         else (Inr (), p'))"

definition sizeof_uint32_t :: size_t where
  "sizeof_uint32_t = 4"

definition hostUtilsGetSignaloidSoCConfigRegister ::
  "'k posix \<Rightarrow> string \<Rightarrow> 'k process \<Rightarrow> (process_exit + uint32_t) \<times> 'k process" where
  "hostUtilsGetSignaloidSoCConfigRegister k device p =
     (let (res, socConfig, p') =
            hostUtilsReadFromC0microSDPlus k device (replicate 4 0) sizeof_uint32_t
              (word_of_int kSignaloidSoCConstantsConfigOffset) p
      in if res \<noteq> sizeof_uint32_t
         then (Inl (ProcessExit EXIT_FAILURE), p')
         else (Inr (uint32_of_bytes (byte_order k) socConfig), p'))"

definition hostUtilsSetSignaloidSoCConfigRegister ::
  "'k posix \<Rightarrow> string \<Rightarrow> uint32_t \<Rightarrow> 'k process \<Rightarrow> (process_exit + unit) \<times> 'k process" where
  "hostUtilsSetSignaloidSoCConfigRegister k device config p =
     (let (res, p') =
            hostUtilsWriteToC0microSDPlus k device (bytes_of_uint32 (byte_order k) config)
              sizeof_uint32_t (word_of_int kSignaloidSoCConstantsConfigOffset) p
      in if res \<noteq> sizeof_uint32_t
         then (Inl (ProcessExit EXIT_FAILURE), p')
         else (Inr (), p'))"

definition hostUtilsGetSignaloidSoCConfigRegisterUnpacked ::
  "'k posix \<Rightarrow> string \<Rightarrow> 'k process
     \<Rightarrow> (process_exit + bool \<times> bool \<times> bool \<times> bool) \<times> 'k process" where
  "hostUtilsGetSignaloidSoCConfigRegisterUnpacked k device p =
     (case hostUtilsGetSignaloidSoCConfigRegister k device p of
        (Inl t, p') \<Rightarrow> (Inl t, p')
      | (Inr reg_val, p') \<Rightarrow> (Inr (unpackConfigRegister reg_val), p'))"

definition hostUtilsSetSignaloidSoCConfigRegisterUnpacked ::
  "'k posix \<Rightarrow> string \<Rightarrow> bool \<Rightarrow> bool \<Rightarrow> bool \<Rightarrow> bool \<Rightarrow> 'k process
     \<Rightarrow> (process_exit + unit) \<times> 'k process" where
  "hostUtilsSetSignaloidSoCConfigRegisterUnpacked k device rstn unlock_bitstream_section
       sw_led_enable sw_led p =
     (let reg_val = packConfigRegister rstn unlock_bitstream_section sw_led_enable sw_led
      in hostUtilsSetSignaloidSoCConfigRegister k device reg_val p)"

definition hostUtilsSetSignaloidSoCCommandRegister ::
  "'k posix \<Rightarrow> string \<Rightarrow> uint32_t \<Rightarrow> 'k process \<Rightarrow> (process_exit + unit) \<times> 'k process" where
  "hostUtilsSetSignaloidSoCCommandRegister k device command p =
     (let (res, p') =
            hostUtilsWriteToC0microSDPlus k device (bytes_of_uint32 (byte_order k) command)
              sizeof_uint32_t (word_of_int kSignaloidSoCConstantsCommandOffset) p
      in if res \<noteq> sizeof_uint32_t
         then (Inl (ProcessExit EXIT_FAILURE), p')
         else (Inr (), p'))"

definition hostUtilsGetSignaloidSoCStatusRegister ::
  "'k posix \<Rightarrow> string \<Rightarrow> 'k process \<Rightarrow> (process_exit + SignaloidSoCStatus) \<times> 'k process" where
  "hostUtilsGetSignaloidSoCStatusRegister k device p =
     (let (res, status, p') =
            hostUtilsReadFromC0microSDPlus k device (replicate 4 0) sizeof_uint32_t
              (word_of_int kSignaloidSoCConstantsStatusOffset) p
      in if res \<noteq> sizeof_uint32_t
         then (Inl (ProcessExit EXIT_FAILURE), p')
         else (Inr (uint32_of_bytes (byte_order k) status), p'))"

definition hostUtilsGetSignaloidSoCBootAddressRegister ::
  "'k posix \<Rightarrow> string \<Rightarrow> 'k process \<Rightarrow> (process_exit + uint32_t) \<times> 'k process" where
  "hostUtilsGetSignaloidSoCBootAddressRegister k device p =
     (let (res, socBootAddress, p') =
            hostUtilsReadFromC0microSDPlus k device (replicate 4 0) sizeof_uint32_t
              (word_of_int kSignaloidSoCConstantsBootAddressOffset) p
      in if res \<noteq> sizeof_uint32_t
         then (Inl (ProcessExit EXIT_FAILURE), p')
         else (Inr (uint32_of_bytes (byte_order k) socBootAddress), p'))"

definition hostUtilsSetSignaloidSoCBootAddressRegister ::
  "'k posix \<Rightarrow> string \<Rightarrow> uint32_t \<Rightarrow> 'k process \<Rightarrow> (process_exit + unit) \<times> 'k process" where
  "hostUtilsSetSignaloidSoCBootAddressRegister k device bootAddress p =
     (let (res, p') =
            hostUtilsWriteToC0microSDPlus k device (bytes_of_uint32 (byte_order k) bootAddress)
              sizeof_uint32_t (word_of_int kSignaloidSoCConstantsBootAddressOffset) p
      in if res \<noteq> sizeof_uint32_t
         then (Inl (ProcessExit EXIT_FAILURE), p')
         else (Inr (), p'))"

section \<open>A host whose devices are regular files\<close>

text \<open>
  A host on which a regular file stands in for the device: a device path names a
  sequence of bytes that supports seeking, reading and writing. The kernel state holds the files by
  path and the table of open file descriptions, indexed by descriptor; a free slot is
  \<open>None\<close>. A path that names no file cannot be opened. One call transfers at most
  \<open>MAX_RW_COUNT\<close> bytes, as on Linux.
\<close>

record open_file =
  of_path :: string
  of_pos :: nat
  of_flags :: "open_flag set"

record filesys =
  files :: "string \<Rightarrow> byte list option"
  fdtab :: "open_file option list"

definition MAX_RW_COUNT :: nat where
  "MAX_RW_COUNT = 0x7ffff000"

text \<open>The lowest free descriptor; the table grows when every slot is taken.\<close>

fun alloc_fd :: "open_file option list \<Rightarrow> open_file \<Rightarrow> nat \<times> open_file option list" where
  "alloc_fd [] d = (0, [Some d])"
| "alloc_fd (None # t) d = (0, Some d # t)"
| "alloc_fd (Some e # t) d = (let (n, t') = alloc_fd t d in (Suc n, Some e # t'))"

definition lookup_fd :: "filesys \<Rightarrow> int \<Rightarrow> open_file option" where
  "lookup_fd s fd =
     (if fd < 0 \<or> length (fdtab s) \<le> nat fd then None else fdtab s ! nat fd)"

definition file_open :: "string \<Rightarrow> open_flag set \<Rightarrow> filesys \<Rightarrow> int \<times> filesys" where
  "file_open path flags s =
     (case files s path of
        None \<Rightarrow> (-1, s)
      | Some content \<Rightarrow>
          (let (n, t) = alloc_fd (fdtab s) \<lparr>of_path = path, of_pos = 0, of_flags = flags\<rparr>
           in (int n, s\<lparr>fdtab := t\<rparr>)))"

text \<open>\<^verbatim>\<open>lseek(fd, offset, SEEK_SET)\<close>: a negative offset is refused, any other is accepted.\<close>

definition file_lseek :: "int \<Rightarrow> off_t \<Rightarrow> filesys \<Rightarrow> off_t \<times> filesys" where
  "file_lseek fd offset s =
     (case lookup_fd s fd of
        None \<Rightarrow> (-1, s)
      | Some d \<Rightarrow>
          if sint offset < 0 then (-1, s)
          else (offset, s\<lparr>fdtab := (fdtab s)[nat fd := Some (d\<lparr>of_pos := nat (sint offset)\<rparr>)]\<rparr>))"

text \<open>Reading stops at the end of the file.\<close>

definition file_read :: "int \<Rightarrow> size_t \<Rightarrow> filesys \<Rightarrow> byte list option \<times> filesys" where
  "file_read fd nbyte s =
     (case lookup_fd s fd of
        None \<Rightarrow> (None, s)
      | Some d \<Rightarrow>
          if O_RDONLY \<notin> of_flags d then (None, s)
          else
            (case files s (of_path d) of
               None \<Rightarrow> (None, s)
             | Some content \<Rightarrow>
                 (let bytes = take (min (unat nbyte) MAX_RW_COUNT) (drop (of_pos d) content)
                  in (Some bytes,
                      s\<lparr>fdtab := (fdtab s)[nat fd := Some (d\<lparr>of_pos := of_pos d + length bytes\<rparr>)]\<rparr>))))"

text \<open>
  Writing replaces the bytes at the position and extends the file where it is too short,
  with zeroes in the gap between the old end and the position.
\<close>

definition write_at :: "byte list \<Rightarrow> nat \<Rightarrow> byte list \<Rightarrow> byte list" where
  "write_at content pos bytes =
     take pos (content @ replicate (pos - length content) 0) @ bytes
       @ drop (pos + length bytes) content"

definition file_write :: "int \<Rightarrow> byte list \<Rightarrow> size_t \<Rightarrow> filesys \<Rightarrow> nat option \<times> filesys" where
  "file_write fd buf nbyte s =
     (case lookup_fd s fd of
        None \<Rightarrow> (None, s)
      | Some d \<Rightarrow>
          if O_WRONLY \<notin> of_flags d then (None, s)
          else if length buf < unat nbyte then (None, s)
          else
            (case files s (of_path d) of
               None \<Rightarrow> (None, s)
             | Some content \<Rightarrow>
                 (let n = min (unat nbyte) MAX_RW_COUNT
                  in if SSIZE_MAX < of_pos d + n then (None, s)
                     else
                       (Some n,
                        s\<lparr>files := (files s)(of_path d \<mapsto> write_at content (of_pos d) (take n buf)),
                          fdtab := (fdtab s)[nat fd := Some (d\<lparr>of_pos := of_pos d + n\<rparr>)]\<rparr>))))"

definition file_close :: "int \<Rightarrow> filesys \<Rightarrow> int \<times> filesys" where
  "file_close fd s =
     (case lookup_fd s fd of
        None \<Rightarrow> (-1, s)
      | Some d \<Rightarrow> (0, s\<lparr>fdtab := (fdtab s)[nat fd := None]\<rparr>))"

definition file_posix :: "endianness \<Rightarrow> filesys posix" where
  "file_posix e =
     \<lparr>byte_order = e, sys_open = file_open, sys_lseek = file_lseek, sys_read = file_read,
      sys_write = file_write, sys_close = file_close\<rparr>"

text \<open>A process that holds no descriptor, on a host with the given files.\<close>

definition fresh_process :: "(string \<Rightarrow> byte list option) \<Rightarrow> filesys process" where
  "fresh_process fs =
     \<lparr>kernel_state = \<lparr>files = fs, fdtab = []\<rparr>, open_handles = {#}, stderr_log = []\<rparr>"

text \<open>
  The open file descriptions that the kernel holds for a process, in the order of their
  descriptors.
\<close>

definition open_descriptions :: "filesys process \<Rightarrow> open_file option list" where
  "open_descriptions p = filter (\<lambda>x. x \<noteq> None) (fdtab (kernel_state p))"

section \<open>Properties\<close>

lemma uint32_of_bytes_of_uint32: "uint32_of_bytes e (bytes_of_uint32 e w) = w"
proof -
  have "ucast (ucast w :: byte) OR push_bit 8 (ucast (ucast (drop_bit 8 w) :: byte)
          OR push_bit 8 (ucast (ucast (drop_bit 16 w) :: byte)
          OR push_bit 8 (ucast (ucast (drop_bit 24 w) :: byte)))) = w"
    apply (rule bit_eqI)
    apply (auto simp: bit_simps)
    apply (rule ccontr)
    apply (simp add: not_less)
    done
  then show ?thesis
    by (cases e) (simp_all add: uint32_of_bytes_def bytes_of_uint32_def)
qed

lemma length_bytes_of_uint32: "length (bytes_of_uint32 e w) = 4"
  by (cases e) (simp_all add: bytes_of_uint32_def)

subsection \<open>The regular-file host\<close>

lemma alloc_fd_slot: "alloc_fd t d = (n, t') \<Longrightarrow> n < length t' \<and> t' ! n = Some d"
proof (induction t d arbitrary: n t' rule: alloc_fd.induct)
  case (3 e t d)
  then show ?case by (auto split: prod.splits)
qed auto

lemma file_open_ok:
  assumes "files s path = Some content"
  obtains n t where "file_open path flags s = (int n, s\<lparr>fdtab := t\<rparr>)" "n < length t"
            "t ! n = Some \<lparr>of_path = path, of_pos = 0, of_flags = flags\<rparr>"
proof -
  obtain n t where a: "alloc_fd (fdtab s) \<lparr>of_path = path, of_pos = 0, of_flags = flags\<rparr> = (n, t)"
    by (cases "alloc_fd (fdtab s) \<lparr>of_path = path, of_pos = 0, of_flags = flags\<rparr>")
  from a assms have "file_open path flags s = (int n, s\<lparr>fdtab := t\<rparr>)"
    by (simp add: file_open_def)
  with alloc_fd_slot [OF a] that show ?thesis by blast
qed

lemma sint_word_of_nat_small: "m < 2 ^ 63 \<Longrightarrow> sint (word_of_nat m :: 64 word) = int m"
proof -
  assume "m < 2 ^ 63"
  then have "int m < 2 ^ 63" by (metis of_nat_less_iff of_nat_numeral of_nat_power)
  moreover have "sint (word_of_nat m :: 64 word) = (int m + 2 ^ 63) mod 2 ^ 64 - 2 ^ 63"
    using int_word_sint [of "int m", where ?'a = 64] by simp
  ultimately show ?thesis by simp
qed

lemma MAX_RW_COUNT_le_SSIZE_MAX: "MAX_RW_COUNT \<le> SSIZE_MAX"
  by (simp add: MAX_RW_COUNT_def SSIZE_MAX_def)

lemma file_raw_read:
  assumes f: "files (kernel_state p) device = Some content" and off: "0 \<le> sint offset"
    and got: "got = take (min (unat n) MAX_RW_COUNT) (drop (nat (sint offset)) content)"
  obtains p' where
    "hostUtilsReadFromC0microSDPlus (file_posix e) device dest n offset p
       = (word_of_nat (length got), got @ drop (length got) dest, p')"
    "files (kernel_state p') = files (kernel_state p)"
    "stderr_log p' = stderr_log p
       @ (if word_of_nat (length got) \<noteq> n then [''Error reading data from the device''] else [])"
    "open_handles p' = open_handles p"
proof -
  obtain fd t where o: "file_open device {O_RDONLY, O_SYNC, O_DSYNC} (kernel_state p)
        = (int fd, (kernel_state p)\<lparr>fdtab := t\<rparr>)"
    and fd: "fd < length t"
    and slot: "t ! fd = Some \<lparr>of_path = device, of_pos = 0, of_flags = {O_RDONLY, O_SYNC, O_DSYNC}\<rparr>"
    using file_open_ok [OF f] by blast
  from off have nm: "offset \<noteq> -1" by auto
  have tk: "take (min (unat n) SSIZE_MAX) got = got"
    using MAX_RW_COUNT_le_SSIZE_MAX by (simp add: got min_def)
  show ?thesis
    apply (rule that [of "snd (snd (hostUtilsReadFromC0microSDPlus (file_posix e) device dest n offset p))"])
    using o fd slot nm off f tk
       apply (simp_all add: hostUtilsReadFromC0microSDPlus_def posix_open_def posix_lseek_def
          posix_read_def posix_close_def perror_def file_posix_def file_lseek_def file_read_def
          file_close_def lookup_fd_def Let_def got [symmetric])
    done
qed

lemma write_at_read_back:
  "take (length bytes) (drop pos (write_at content pos bytes)) = bytes"
  by (simp add: write_at_def)

lemma file_raw_write:
  assumes f: "files (kernel_state p) device = Some content" and off: "0 \<le> sint offset"
    and len: "unat n \<le> length src"
    and m: "m = min (unat n) MAX_RW_COUNT"
    and big: "nat (sint offset) + m \<le> SSIZE_MAX"
  obtains p' where
    "hostUtilsWriteToC0microSDPlus (file_posix e) device src n offset p = (word_of_nat m, p')"
    "files (kernel_state p') = (files (kernel_state p))
        (device \<mapsto> write_at content (nat (sint offset)) (take m src))"
    "stderr_log p' = stderr_log p
       @ (if word_of_nat m \<noteq> n then [''Error writing data to the device''] else [])"
    "open_handles p' = open_handles p"
proof -
  obtain fd t where o: "file_open device {O_WRONLY, O_SYNC, O_DSYNC} (kernel_state p)
        = (int fd, (kernel_state p)\<lparr>fdtab := t\<rparr>)"
    and fd: "fd < length t"
    and slot: "t ! fd = Some \<lparr>of_path = device, of_pos = 0, of_flags = {O_WRONLY, O_SYNC, O_DSYNC}\<rparr>"
    using file_open_ok [OF f] by blast
  from off have nm: "offset \<noteq> -1" by auto
  have tk: "min m (min (unat n) SSIZE_MAX) = m"
    using MAX_RW_COUNT_le_SSIZE_MAX by (simp add: m min_def)
  show ?thesis
    apply (rule that [of "snd (hostUtilsWriteToC0microSDPlus (file_posix e) device src n offset p)"])
    using o fd slot nm off f tk len big
       apply (simp_all add: hostUtilsWriteToC0microSDPlus_def posix_open_def posix_lseek_def
          posix_write_def posix_close_def perror_def file_posix_def file_lseek_def file_write_def
          file_close_def lookup_fd_def Let_def m [symmetric])
    done
qed


subsection \<open>Raw transactions on any host\<close>

lemma sint_SSIZE_bounded:
  "0 \<le> sint (word_of_nat (min m SSIZE_MAX) :: 64 word)"
proof -
  have "min m SSIZE_MAX < 2 ^ 63" by (simp add: SSIZE_MAX_def min_def)
  then show ?thesis by (simp add: sint_word_of_nat_small)
qed

lemma unat_SSIZE_bounded:
  "unat (word_of_nat (min m SSIZE_MAX) :: 64 word) = min m SSIZE_MAX"
proof -
  have "min m SSIZE_MAX < 2 ^ 64" by (simp add: SSIZE_MAX_def min_def)
  then show ?thesis by (simp add: unat_of_nat)
qed

lemma short_count_neq:
  assumes "m < unat (n :: 64 word)"
  shows "(word_of_nat (min m SSIZE_MAX) :: 64 word) \<noteq> n"
proof
  assume "(word_of_nat (min m SSIZE_MAX) :: 64 word) = n"
  then have "unat n = min m SSIZE_MAX" using unat_SSIZE_bounded [of m] by simp
  with assms show False by simp
qed

lemma raw_read_result:
  "hostUtilsReadFromC0microSDPlus k device destBuffer bufferSize offset p =
     (let (fd, s1) = sys_open k device {O_RDONLY, O_SYNC, O_DSYNC} (kernel_state p);
          (pos, s2) = sys_lseek k fd offset s1;
          (r, s3) = sys_read k fd bufferSize s2
      in if fd = -1 then (-1, destBuffer, p\<lparr>kernel_state := s1,
                 stderr_log := stderr_log p @ [''Error opening device'']\<rparr>)
         else if pos = -1 then (-1, destBuffer, p\<lparr>kernel_state := snd (sys_close k fd s2),
                 stderr_log := stderr_log p @ [''Error seeking to target offset'']\<rparr>)
         else case r of
              None \<Rightarrow> (-1, destBuffer, p\<lparr>kernel_state := snd (sys_close k fd s3),
                 stderr_log := stderr_log p @ (if bufferSize \<noteq> -1 then [''Error reading data from the device''] else [])\<rparr>)
            | Some bytes \<Rightarrow>
                (let got = take (min (unat bufferSize) SSIZE_MAX) bytes
                 in (word_of_nat (length got), got @ drop (length got) destBuffer,
                     p\<lparr>kernel_state := snd (sys_close k fd s3),
                       stderr_log := stderr_log p @ (if word_of_nat (length got) \<noteq> bufferSize
                          then [''Error reading data from the device''] else [])\<rparr>)))"
  by (simp add: hostUtilsReadFromC0microSDPlus_def posix_open_def posix_lseek_def posix_read_def
        posix_close_def perror_def Let_def case_prod_beta split: option.splits)

lemma raw_write_result:
  "hostUtilsWriteToC0microSDPlus k device sourceBuffer bufferSize offset p =
     (let (fd, s1) = sys_open k device {O_WRONLY, O_SYNC, O_DSYNC} (kernel_state p);
          (pos, s2) = sys_lseek k fd offset s1;
          (r, s3) = sys_write k fd sourceBuffer bufferSize s2
      in if fd = -1 then (-1, p\<lparr>kernel_state := s1,
                 stderr_log := stderr_log p @ [''Error opening device'']\<rparr>)
         else if pos = -1 then (-1, p\<lparr>kernel_state := snd (sys_close k fd s2),
                 stderr_log := stderr_log p @ [''Error seeking to target offset'']\<rparr>)
         else case r of
              None \<Rightarrow> (-1, p\<lparr>kernel_state := snd (sys_close k fd s3),
                 stderr_log := stderr_log p @ (if bufferSize \<noteq> -1 then [''Error writing data to the device''] else [])\<rparr>)
            | Some n \<Rightarrow>
                (let done = min n (min (unat bufferSize) SSIZE_MAX)
                 in (word_of_nat done,
                     p\<lparr>kernel_state := snd (sys_close k fd s3),
                       stderr_log := stderr_log p @ (if word_of_nat done \<noteq> bufferSize
                          then [''Error writing data to the device''] else [])\<rparr>)))"
  by (simp add: hostUtilsWriteToC0microSDPlus_def posix_open_def posix_lseek_def posix_write_def
        posix_close_def perror_def Let_def case_prod_beta split: option.splits)

text \<open>
  A raw read that returns the requested size has overwritten the whole buffer: what the
  buffer held before the call, such as the indeterminate first contents of a local
  variable, has no part in the result.
\<close>

lemma full_count_length:
  assumes "(word_of_nat (min l (min (unat n) SSIZE_MAX)) :: 64 word) = n"
  shows "min l (min (unat n) SSIZE_MAX) = unat n"
proof -
  let ?l = "min l (min (unat n) SSIZE_MAX)"
  have "?l \<le> unat n" by simp
  then have "unat (word_of_nat ?l :: 64 word) = ?l" by (rule le_unat_uoi)
  with assms show ?thesis by simp
qed

lemma full_read_overwrites_buffer:
  assumes "fst (hostUtilsReadFromC0microSDPlus k device d1 n off p) = n" and "n \<noteq> -1"
    and "length d1 = unat n" and "length d2 = unat n"
  shows "hostUtilsReadFromC0microSDPlus k device d2 n off p
           = hostUtilsReadFromC0microSDPlus k device d1 n off p"
  using assms
  by (auto simp add: raw_read_result case_prod_beta Let_def dest!: full_count_length
        split: if_splits option.splits)

lemma sint_eq_8192: "(sint (w :: 64 word) = 8192) = (w = 8192)"
proof
  assume a: "sint w = 8192"
  have "w = scast w" by simp
  also have "\<dots> = word_of_int (sint w)" by (rule scast_eq)
  also have "\<dots> = 8192" unfolding a by simp
  finally show "w = 8192" .
next
  assume "w = 8192"
  then show "sint w = 8192" by simp
qed

lemmas register_defs =
  hostUtilsReadSignaloidSoCMMIOBuffer_def hostUtilsWriteSignaloidSoCMMIOBuffer_def
  hostUtilsGetSignaloidSoCConfigRegister_def hostUtilsSetSignaloidSoCConfigRegister_def
  hostUtilsGetSignaloidSoCConfigRegisterUnpacked_def
  hostUtilsSetSignaloidSoCConfigRegisterUnpacked_def
  hostUtilsSetSignaloidSoCCommandRegister_def hostUtilsGetSignaloidSoCStatusRegister_def
  hostUtilsGetSignaloidSoCBootAddressRegister_def
  hostUtilsSetSignaloidSoCBootAddressRegister_def sizeof_uint32_t_def

lemmas offset_defs =
  kSignaloidSoCConstantsMMIOBufferOffset_def
  kSignaloidSoCConstantsConfigOffset_def kSignaloidSoCConstantsCommandOffset_def
  kSignaloidSoCConstantsStatusOffset_def kSignaloidSoCConstantsBootAddressOffset_def

lemma raw_read_no_device:
  "fst (hostUtilsReadFromC0microSDPlus (file_posix LittleEndian) ''/dev/none'' b n off
          (fresh_process Map.empty)) = -1"
  by (simp add: hostUtilsReadFromC0microSDPlus_def posix_open_def file_posix_def file_open_def
        fresh_process_def)

lemma raw_write_no_device:
  "fst (hostUtilsWriteToC0microSDPlus (file_posix LittleEndian) ''/dev/none'' b n off
          (fresh_process Map.empty)) = -1"
  by (simp add: hostUtilsWriteToC0microSDPlus_def posix_open_def file_posix_def file_open_def
        fresh_process_def)

subsection \<open>Failure of a register operation\<close>

text \<open>
  C3. For every host and every register-level operation (MMIO buffer read and write,
  config get and set, packed or unpacked, command set, status get, boot-address get and
  set): when the operation's raw transaction returns a count other than the size it asked
  for, \<open>-1\<close> included, the operation ends in \<^verbatim>\<open>exit(EXIT_FAILURE)\<close> and returns no
  value.
\<close>

theorem register_operations_fatal:
  "(fst (hostUtilsReadFromC0microSDPlus k device destBuffer 8192 0x01004000 p) \<noteq> 8192
      \<longrightarrow> fst (hostUtilsReadSignaloidSoCMMIOBuffer k device destBuffer p)
            = Inl (ProcessExit EXIT_FAILURE))
   \<and> (fst (hostUtilsWriteToC0microSDPlus k device sourceBuffer 8192 0x01004000 p) \<noteq> 8192
      \<longrightarrow> fst (hostUtilsWriteSignaloidSoCMMIOBuffer k device sourceBuffer p)
            = Inl (ProcessExit EXIT_FAILURE))
   \<and> (fst (hostUtilsReadFromC0microSDPlus k device (replicate 4 0) 4 0x01000004 p) \<noteq> 4
      \<longrightarrow> fst (hostUtilsGetSignaloidSoCConfigRegister k device p)
            = Inl (ProcessExit EXIT_FAILURE)
          \<and> fst (hostUtilsGetSignaloidSoCConfigRegisterUnpacked k device p)
            = Inl (ProcessExit EXIT_FAILURE))
   \<and> (fst (hostUtilsWriteToC0microSDPlus k device (bytes_of_uint32 (byte_order k) config) 4
             0x01000004 p) \<noteq> 4
      \<longrightarrow> fst (hostUtilsSetSignaloidSoCConfigRegister k device config p)
            = Inl (ProcessExit EXIT_FAILURE))
   \<and> (fst (hostUtilsWriteToC0microSDPlus k device
             (bytes_of_uint32 (byte_order k) (packConfigRegister rstn unlock sw_led_enable sw_led))
             4 0x01000004 p) \<noteq> 4
      \<longrightarrow> fst (hostUtilsSetSignaloidSoCConfigRegisterUnpacked k device rstn unlock
                 sw_led_enable sw_led p)
            = Inl (ProcessExit EXIT_FAILURE))
   \<and> (fst (hostUtilsWriteToC0microSDPlus k device (bytes_of_uint32 (byte_order k) command) 4
             0x01000000 p) \<noteq> 4
      \<longrightarrow> fst (hostUtilsSetSignaloidSoCCommandRegister k device command p)
            = Inl (ProcessExit EXIT_FAILURE))
   \<and> (fst (hostUtilsReadFromC0microSDPlus k device (replicate 4 0) 4 0x0100000C p) \<noteq> 4
      \<longrightarrow> fst (hostUtilsGetSignaloidSoCStatusRegister k device p)
            = Inl (ProcessExit EXIT_FAILURE))
   \<and> (fst (hostUtilsReadFromC0microSDPlus k device (replicate 4 0) 4 0x01000008 p) \<noteq> 4
      \<longrightarrow> fst (hostUtilsGetSignaloidSoCBootAddressRegister k device p)
            = Inl (ProcessExit EXIT_FAILURE))
   \<and> (fst (hostUtilsWriteToC0microSDPlus k device (bytes_of_uint32 (byte_order k) bootAddress) 4
             0x01000008 p) \<noteq> 4
      \<longrightarrow> fst (hostUtilsSetSignaloidSoCBootAddressRegister k device bootAddress p)
            = Inl (ProcessExit EXIT_FAILURE))"
  by (intro conjI impI; 
      simp add: register_defs offset_defs sint_eq_8192 case_prod_beta
         kSignaloidSoCConstantsMMIOBufferSizeBytes_def)

theorem register_operations_fatal_witness:
  "fst (hostUtilsReadSignaloidSoCMMIOBuffer (file_posix LittleEndian) ''/dev/none'' (replicate 8192 0)
          (fresh_process Map.empty)) = Inl (ProcessExit EXIT_FAILURE)
   \<and> fst (hostUtilsWriteSignaloidSoCMMIOBuffer (file_posix LittleEndian) ''/dev/none''
          (replicate 8192 0) (fresh_process Map.empty)) = Inl (ProcessExit EXIT_FAILURE)
   \<and> fst (hostUtilsGetSignaloidSoCConfigRegister (file_posix LittleEndian) ''/dev/none''
          (fresh_process Map.empty)) = Inl (ProcessExit EXIT_FAILURE)
   \<and> fst (hostUtilsGetSignaloidSoCConfigRegisterUnpacked (file_posix LittleEndian) ''/dev/none''
          (fresh_process Map.empty)) = Inl (ProcessExit EXIT_FAILURE)
   \<and> fst (hostUtilsSetSignaloidSoCConfigRegister (file_posix LittleEndian) ''/dev/none'' 5
          (fresh_process Map.empty)) = Inl (ProcessExit EXIT_FAILURE)
   \<and> fst (hostUtilsSetSignaloidSoCConfigRegisterUnpacked (file_posix LittleEndian) ''/dev/none''
          True False True False (fresh_process Map.empty)) = Inl (ProcessExit EXIT_FAILURE)
   \<and> fst (hostUtilsSetSignaloidSoCCommandRegister (file_posix LittleEndian) ''/dev/none'' 1
          (fresh_process Map.empty)) = Inl (ProcessExit EXIT_FAILURE)
   \<and> fst (hostUtilsGetSignaloidSoCStatusRegister (file_posix LittleEndian) ''/dev/none''
          (fresh_process Map.empty)) = Inl (ProcessExit EXIT_FAILURE)
   \<and> fst (hostUtilsGetSignaloidSoCBootAddressRegister (file_posix LittleEndian) ''/dev/none''
          (fresh_process Map.empty)) = Inl (ProcessExit EXIT_FAILURE)
   \<and> fst (hostUtilsSetSignaloidSoCBootAddressRegister (file_posix LittleEndian) ''/dev/none'' 0
          (fresh_process Map.empty)) = Inl (ProcessExit EXIT_FAILURE)"
  using register_operations_fatal [of "file_posix LittleEndian" "''/dev/none''" "replicate 8192 0"
      "fresh_process Map.empty" "replicate 8192 0" 5 True False True False 1 0]
  by (simp add: raw_read_no_device raw_write_no_device)

lemmas file_host_defs = posix_open_def posix_lseek_def posix_read_def posix_write_def
  posix_close_def perror_def file_posix_def fresh_process_def file_open_def file_lseek_def
  file_read_def file_write_def file_close_def lookup_fd_def

subsection \<open>What a raw transaction returns\<close>

text \<open>
  C1, as the source has it. The claim is that the raw read and the raw write return
  \<open>-1\<close> also when the underlying transfer is short. They do not: the source returns what
  \<^verbatim>\<open>read\<close> or \<^verbatim>\<open>write\<close> returned. Reading 4 bytes at offset 0 of a 2-byte device, the
  underlying read transfers 2 bytes and the raw read returns 2, not \<open>-1\<close>.
\<close>

theorem raw_transaction_short_read_counterexample:
  "fst (file_read 0 4
         \<lparr>files = [''/dev/sdb'' \<mapsto> [1, 2]],
          fdtab = [Some \<lparr>of_path = ''/dev/sdb'', of_pos = 0,
                          of_flags = {O_RDONLY, O_SYNC, O_DSYNC}\<rparr>]\<rparr>) = Some [1, 2]
   \<and> fst (hostUtilsReadFromC0microSDPlus (file_posix LittleEndian) ''/dev/sdb'' [0, 0, 0, 0] 4 0
            (fresh_process [''/dev/sdb'' \<mapsto> [1, 2]])) = 2
   \<and> fst (hostUtilsReadFromC0microSDPlus (file_posix LittleEndian) ''/dev/sdb'' [0, 0, 0, 0] 4 0
            (fresh_process [''/dev/sdb'' \<mapsto> [1, 2]])) \<noteq> -1"
  by (simp add: hostUtilsReadFromC0microSDPlus_def file_host_defs SSIZE_MAX_def MAX_RW_COUNT_def
        Let_def)

text \<open>
  C1, amended. For every host, device path, buffer, size and offset: the raw read (and the
  raw write) returns \<open>-1\<close> when the device cannot be opened, when seeking fails, and when
  the underlying \<^verbatim>\<open>read\<close> (\<^verbatim>\<open>write\<close>) reports an error. When the underlying call transfers
  fewer bytes than requested, the raw transaction reports the condition with \<^verbatim>\<open>perror\<close>
  and returns the number of bytes transferred: a non-negative count, different from \<open>-1\<close>
  and from the requested size.
\<close>

theorem raw_transaction_error_results:
  fixes k :: "'k posix" and device :: string and p :: "'k process"
    and destBuffer sourceBuffer :: "byte list" and bufferSize :: size_t and offset :: off_t
  defines "rflags \<equiv> {O_RDONLY, O_SYNC, O_DSYNC}" and "wflags \<equiv> {O_WRONLY, O_SYNC, O_DSYNC}"
  defines "rfd \<equiv> fst (sys_open k device rflags (kernel_state p))"
    and "wfd \<equiv> fst (sys_open k device wflags (kernel_state p))"
  defines "rpos \<equiv> sys_lseek k rfd offset (snd (sys_open k device rflags (kernel_state p)))"
    and "wpos \<equiv> sys_lseek k wfd offset (snd (sys_open k device wflags (kernel_state p)))"
  defines "rres \<equiv> fst (sys_read k rfd bufferSize (snd rpos))"
    and "wres \<equiv> fst (sys_write k wfd sourceBuffer bufferSize (snd wpos))"
  defines "R \<equiv> hostUtilsReadFromC0microSDPlus k device destBuffer bufferSize offset p"
    and "W \<equiv> hostUtilsWriteToC0microSDPlus k device sourceBuffer bufferSize offset p"
  shows "(rfd = -1 \<or> fst rpos = -1 \<or> rres = None \<longrightarrow> fst R = -1)
       \<and> (rfd \<noteq> -1 \<and> fst rpos \<noteq> -1 \<and> rres = Some bytes \<and> length bytes < unat bufferSize
            \<longrightarrow> fst R = word_of_nat (min (length bytes) SSIZE_MAX) \<and> 0 \<le> sint (fst R)
                \<and> fst R \<noteq> -1 \<and> fst R \<noteq> bufferSize
                \<and> stderr_log (snd (snd R))
                    = stderr_log p @ [''Error reading data from the device''])
       \<and> (wfd = -1 \<or> fst wpos = -1 \<or> wres = None \<longrightarrow> fst W = -1)
       \<and> (wfd \<noteq> -1 \<and> fst wpos \<noteq> -1 \<and> wres = Some n \<and> n < unat bufferSize
            \<longrightarrow> fst W = word_of_nat (min n SSIZE_MAX) \<and> 0 \<le> sint (fst W)
                \<and> fst W \<noteq> -1 \<and> fst W \<noteq> bufferSize
                \<and> stderr_log (snd W) = stderr_log p @ [''Error writing data to the device''])"
proof (intro conjI impI)
  assume "rfd = -1 \<or> fst rpos = -1 \<or> rres = None"
  then show "fst R = -1"
    unfolding R_def rfd_def rpos_def rres_def rflags_def
    by (auto simp add: raw_read_result case_prod_beta Let_def)
next
  assume "wfd = -1 \<or> fst wpos = -1 \<or> wres = None"
  then show "fst W = -1"
    unfolding W_def wfd_def wpos_def wres_def wflags_def
    by (auto simp add: raw_write_result case_prod_beta Let_def)
next
  assume a: "rfd \<noteq> -1 \<and> fst rpos \<noteq> -1 \<and> rres = Some bytes \<and> length bytes < unat bufferSize"
  then have m: "min (length bytes) (min (unat bufferSize) SSIZE_MAX) = min (length bytes) SSIZE_MAX"
    by (simp add: min_def)
  from a have neq: "(word_of_nat (min (length bytes) SSIZE_MAX) :: 64 word) \<noteq> bufferSize"
    by (simp add: short_count_neq)
  from a m neq show r: "fst R = word_of_nat (min (length bytes) SSIZE_MAX)"
    unfolding R_def rfd_def rpos_def rres_def rflags_def
    by (simp add: raw_read_result case_prod_beta Let_def)
  from a m neq show "stderr_log (snd (snd R)) = stderr_log p @ [''Error reading data from the device'']"
    unfolding R_def rfd_def rpos_def rres_def rflags_def
    by (simp add: raw_read_result case_prod_beta Let_def)
  show s: "0 \<le> sint (fst R)" unfolding r by (rule sint_SSIZE_bounded)
  from s show "fst R \<noteq> -1" by auto
  from neq show "fst R \<noteq> bufferSize" unfolding r .
next
  assume a: "wfd \<noteq> -1 \<and> fst wpos \<noteq> -1 \<and> wres = Some n \<and> n < unat bufferSize"
  then have m: "min n (min (unat bufferSize) SSIZE_MAX) = min n SSIZE_MAX"
    by (simp add: min_def)
  from a have neq: "(word_of_nat (min n SSIZE_MAX) :: 64 word) \<noteq> bufferSize"
    by (simp add: short_count_neq)
  from a m neq show r: "fst W = word_of_nat (min n SSIZE_MAX)"
    unfolding W_def wfd_def wpos_def wres_def wflags_def
    by (simp add: raw_write_result case_prod_beta Let_def)
  from a m neq show "stderr_log (snd W) = stderr_log p @ [''Error writing data to the device'']"
    unfolding W_def wfd_def wpos_def wres_def wflags_def
    by (simp add: raw_write_result case_prod_beta Let_def)
  show s: "0 \<le> sint (fst W)" unfolding r by (rule sint_SSIZE_bounded)
  from s show "fst W \<noteq> -1" by auto
  from neq show "fst W \<noteq> bufferSize" unfolding r .
qed

theorem raw_transaction_error_results_witness:
  "fst (hostUtilsReadFromC0microSDPlus (file_posix LittleEndian) ''/dev/none'' [0, 0, 0, 0] 4 0
          (fresh_process Map.empty)) = -1
   \<and> fst (hostUtilsWriteToC0microSDPlus (file_posix LittleEndian) ''/dev/none'' [1, 2, 3, 4] 4 0
          (fresh_process Map.empty)) = -1
   \<and> fst (hostUtilsReadFromC0microSDPlus (file_posix LittleEndian) ''/dev/sdb'' [0, 0, 0, 0] 4 (-5)
          (fresh_process [''/dev/sdb'' \<mapsto> [1, 2]])) = -1
   \<and> fst (hostUtilsWriteToC0microSDPlus (file_posix LittleEndian) ''/dev/sdb'' [1, 2, 3, 4] 4 (-5)
          (fresh_process [''/dev/sdb'' \<mapsto> [1, 2]])) = -1
   \<and> fst (hostUtilsReadFromC0microSDPlus
            ((file_posix LittleEndian)\<lparr>sys_read := \<lambda>fd nbyte s. (None, s)\<rparr>)
            ''/dev/sdb'' [0, 0, 0, 0] 4 0 (fresh_process [''/dev/sdb'' \<mapsto> [1, 2]])) = -1
   \<and> fst (hostUtilsWriteToC0microSDPlus
            ((file_posix LittleEndian)\<lparr>sys_write := \<lambda>fd buf nbyte s. (None, s)\<rparr>)
            ''/dev/sdb'' [1, 2, 3, 4] 4 0 (fresh_process [''/dev/sdb'' \<mapsto> [1, 2]])) = -1
   \<and> fst (hostUtilsReadFromC0microSDPlus (file_posix LittleEndian) ''/dev/sdb'' [0, 0, 0, 0] 4 0
          (fresh_process [''/dev/sdb'' \<mapsto> [1, 2]])) = 2
   \<and> fst (hostUtilsWriteToC0microSDPlus
            ((file_posix LittleEndian)\<lparr>sys_write := \<lambda>fd buf nbyte s. (Some 1, s)\<rparr>)
            ''/dev/sdb'' [1, 2, 3, 4] 4 0 (fresh_process [''/dev/sdb'' \<mapsto> [1, 2]])) = 1"
proof (intro conjI)
  note host = file_posix_def fresh_process_def file_open_def file_lseek_def file_read_def
    lookup_fd_def MAX_RW_COUNT_def SSIZE_MAX_def Let_def
  show "fst (hostUtilsReadFromC0microSDPlus (file_posix LittleEndian) ''/dev/none'' [0, 0, 0, 0] 4 0
          (fresh_process Map.empty)) = -1"
    using raw_transaction_error_results [where k = "file_posix LittleEndian"
        and device = "''/dev/none''" and p = "fresh_process Map.empty", THEN conjunct1]
    by (simp add: host)
  show "fst (hostUtilsWriteToC0microSDPlus (file_posix LittleEndian) ''/dev/none'' [1, 2, 3, 4] 4 0
          (fresh_process Map.empty)) = -1"
    using raw_transaction_error_results [where k = "file_posix LittleEndian"
        and device = "''/dev/none''" and p = "fresh_process Map.empty",
        THEN conjunct2, THEN conjunct2, THEN conjunct1]
    by (simp add: host)
  show "fst (hostUtilsReadFromC0microSDPlus (file_posix LittleEndian) ''/dev/sdb'' [0, 0, 0, 0] 4 (-5)
          (fresh_process [''/dev/sdb'' \<mapsto> [1, 2]])) = -1"
    using raw_transaction_error_results [where k = "file_posix LittleEndian"
        and device = "''/dev/sdb''" and offset = "-5"
        and p = "fresh_process [''/dev/sdb'' \<mapsto> [1, 2]]", THEN conjunct1]
    by (simp add: host)
  show "fst (hostUtilsWriteToC0microSDPlus (file_posix LittleEndian) ''/dev/sdb'' [1, 2, 3, 4] 4 (-5)
          (fresh_process [''/dev/sdb'' \<mapsto> [1, 2]])) = -1"
    using raw_transaction_error_results [where k = "file_posix LittleEndian"
        and device = "''/dev/sdb''" and offset = "-5"
        and p = "fresh_process [''/dev/sdb'' \<mapsto> [1, 2]]",
        THEN conjunct2, THEN conjunct2, THEN conjunct1]
    by (simp add: host)
  show "fst (hostUtilsReadFromC0microSDPlus
            ((file_posix LittleEndian)\<lparr>sys_read := \<lambda>fd nbyte s. (None, s)\<rparr>)
            ''/dev/sdb'' [0, 0, 0, 0] 4 0 (fresh_process [''/dev/sdb'' \<mapsto> [1, 2]])) = -1"
    using raw_transaction_error_results
        [where k = "(file_posix LittleEndian)\<lparr>sys_read := \<lambda>fd nbyte s. (None, s)\<rparr>"
        and device = "''/dev/sdb''" and offset = 0
        and p = "fresh_process [''/dev/sdb'' \<mapsto> [1, 2]]", THEN conjunct1]
    by (simp add: host)
  show "fst (hostUtilsWriteToC0microSDPlus
            ((file_posix LittleEndian)\<lparr>sys_write := \<lambda>fd buf nbyte s. (None, s)\<rparr>)
            ''/dev/sdb'' [1, 2, 3, 4] 4 0 (fresh_process [''/dev/sdb'' \<mapsto> [1, 2]])) = -1"
    using raw_transaction_error_results
        [where k = "(file_posix LittleEndian)\<lparr>sys_write := \<lambda>fd buf nbyte s. (None, s)\<rparr>"
        and device = "''/dev/sdb''" and offset = 0
        and p = "fresh_process [''/dev/sdb'' \<mapsto> [1, 2]]",
        THEN conjunct2, THEN conjunct2, THEN conjunct1]
    by (simp add: host)
  show "fst (hostUtilsReadFromC0microSDPlus (file_posix LittleEndian) ''/dev/sdb'' [0, 0, 0, 0] 4 0
          (fresh_process [''/dev/sdb'' \<mapsto> [1, 2]])) = 2"
    using raw_transaction_error_results [where k = "file_posix LittleEndian"
        and device = "''/dev/sdb''" and offset = 0 and bufferSize = 4 and bytes = "[1, 2]"
        and destBuffer = "[0, 0, 0, 0]"
        and p = "fresh_process [''/dev/sdb'' \<mapsto> [1, 2]]", THEN conjunct2, THEN conjunct1]
    by (simp add: host)
  show "fst (hostUtilsWriteToC0microSDPlus
            ((file_posix LittleEndian)\<lparr>sys_write := \<lambda>fd buf nbyte s. (Some 1, s)\<rparr>)
            ''/dev/sdb'' [1, 2, 3, 4] 4 0 (fresh_process [''/dev/sdb'' \<mapsto> [1, 2]])) = 1"
    using raw_transaction_error_results
        [where k = "(file_posix LittleEndian)\<lparr>sys_write := \<lambda>fd buf nbyte s. (Some 1, s)\<rparr>"
        and device = "''/dev/sdb''" and offset = 0 and bufferSize = 4 and n = 1
        and sourceBuffer = "[1, 2, 3, 4]"
        and p = "fresh_process [''/dev/sdb'' \<mapsto> [1, 2]]",
        THEN conjunct2, THEN conjunct2, THEN conjunct2]
    by (simp add: host)
qed

subsection \<open>Writing and reading back\<close>

lemma file_write_then_read:
  fixes e :: endianness and device :: string and p :: "filesys process"
    and sourceBuffer destBuffer :: "byte list" and bufferSize :: size_t and offset :: off_t
  defines "W \<equiv> hostUtilsWriteToC0microSDPlus (file_posix e) device sourceBuffer bufferSize offset p"
  defines "R \<equiv> hostUtilsReadFromC0microSDPlus (file_posix e) device destBuffer bufferSize offset
                 (snd W)"
  assumes f: "files (kernel_state p) device = Some content"
    and off: "0 \<le> sint offset"
    and sz: "unat bufferSize \<le> MAX_RW_COUNT"
    and big: "nat (sint offset) + unat bufferSize \<le> SSIZE_MAX"
    and src: "unat bufferSize \<le> length sourceBuffer"
  shows "fst W = bufferSize \<and> fst R = bufferSize
       \<and> fst (snd R) = take (unat bufferSize) sourceBuffer @ drop (unat bufferSize) destBuffer"
proof -
  let ?n = "unat bufferSize"
  let ?bytes = "take ?n sourceBuffer"
  let ?pos = "nat (sint offset)"
  have m: "?n = min ?n MAX_RW_COUNT" using sz by simp
  obtain q where w1: "W = (word_of_nat ?n, q)"
    and fq: "files (kernel_state q) = (files (kernel_state p))(device \<mapsto> write_at content ?pos ?bytes)"
    using file_raw_write [OF f off src m big] unfolding W_def by blast
  have len: "length ?bytes = ?n" using src by simp
  have f1: "files (kernel_state (snd W)) device = Some (write_at content ?pos ?bytes)"
    using fq w1 by simp
  have "take ?n (drop ?pos (write_at content ?pos ?bytes)) = ?bytes"
    using write_at_read_back [of ?bytes ?pos content] len by simp
  then have got: "?bytes = take (min ?n MAX_RW_COUNT) (drop ?pos (write_at content ?pos ?bytes))"
    using m by simp
  obtain q' where "R = (word_of_nat (length ?bytes), ?bytes @ drop (length ?bytes) destBuffer, q')"
    using file_raw_read [OF f1 off got] unfolding R_def by blast
  with w1 len show ?thesis by simp
qed

text \<open>
  C5. On a host whose device is a regular file: for every offset that is not negative and
  every size that one transfer can carry (with the end of the range representable as a
  file offset), and so for every offset and size inside the address space of the device,
  a raw write of \<open>bufferSize\<close> bytes at the offset followed by a raw read of the same size
  at the same offset transfers all the bytes both times, and the read returns exactly the
  bytes written.
\<close>

theorem raw_write_read_round_trip:
  fixes e :: endianness and device :: string and p :: "filesys process"
    and sourceBuffer destBuffer :: "byte list" and bufferSize :: size_t and offset :: off_t
  defines "W \<equiv> hostUtilsWriteToC0microSDPlus (file_posix e) device sourceBuffer bufferSize offset p"
  defines "R \<equiv> hostUtilsReadFromC0microSDPlus (file_posix e) device destBuffer bufferSize offset
                 (snd W)"
  assumes f: "files (kernel_state p) device = Some content"
    and off: "0 \<le> sint offset"
    and sz: "unat bufferSize \<le> MAX_RW_COUNT"
    and big: "nat (sint offset) + unat bufferSize \<le> SSIZE_MAX"
    and src: "unat bufferSize \<le> length sourceBuffer"
  shows "fst W = bufferSize \<and> fst R = bufferSize
       \<and> take (unat bufferSize) (fst (snd R)) = take (unat bufferSize) sourceBuffer"
  unfolding W_def R_def using file_write_then_read [OF f off sz big src, of e destBuffer] src
  by simp

theorem raw_write_read_round_trip_witness:
  "fst (hostUtilsWriteToC0microSDPlus (file_posix LittleEndian) ''/dev/sdb'' [170, 187, 204, 221]
          4 2 (fresh_process [''/dev/sdb'' \<mapsto> [1, 2, 3, 4, 5, 6, 7, 8]])) = 4
   \<and> fst (hostUtilsReadFromC0microSDPlus (file_posix LittleEndian) ''/dev/sdb'' [0, 0, 0, 0] 4 2
          (snd (hostUtilsWriteToC0microSDPlus (file_posix LittleEndian) ''/dev/sdb''
                  [170, 187, 204, 221] 4 2
                  (fresh_process [''/dev/sdb'' \<mapsto> [1, 2, 3, 4, 5, 6, 7, 8]])))) = 4
   \<and> take 4 (fst (snd (hostUtilsReadFromC0microSDPlus (file_posix LittleEndian) ''/dev/sdb''
          [0, 0, 0, 0] 4 2
          (snd (hostUtilsWriteToC0microSDPlus (file_posix LittleEndian) ''/dev/sdb''
                  [170, 187, 204, 221] 4 2
                  (fresh_process [''/dev/sdb'' \<mapsto> [1, 2, 3, 4, 5, 6, 7, 8]]))))))
       = [170, 187, 204, 221]"
  using raw_write_read_round_trip [where e = LittleEndian and device = "''/dev/sdb''"
      and p = "fresh_process [''/dev/sdb'' \<mapsto> [1, 2, 3, 4, 5, 6, 7, 8]]"
      and content = "[1, 2, 3, 4, 5, 6, 7, 8]" and offset = 2 and bufferSize = 4
      and sourceBuffer = "[170, 187, 204, 221]" and destBuffer = "[0, 0, 0, 0]"]
  by (simp add: fresh_process_def MAX_RW_COUNT_def SSIZE_MAX_def)

subsection \<open>The config register's flag fields\<close>

lemma unpack_packed_config:
  "unpackConfigRegister (packConfigRegister a b c d) = (a, b, c, d)"
  by (cases a; cases b; cases c; cases d)
     (simp_all add: unpackConfigRegister_def packConfigRegister_def uint32_of_bool_def
        bool_of_uint32_def)

lemma set_config_unpacked_then_get:
  fixes p :: "filesys process"
  defines "S \<equiv> \<lambda>e device rstn unlock sw_led_enable sw_led.
     hostUtilsSetSignaloidSoCConfigRegisterUnpacked (file_posix e) device rstn unlock
       sw_led_enable sw_led p"
  assumes f: "files (kernel_state p) device = Some content"
  shows "fst (S e device rstn unlock sw_led_enable sw_led) = Inr ()
     \<and> fst (hostUtilsGetSignaloidSoCConfigRegister (file_posix e) device
              (snd (S e device rstn unlock sw_led_enable sw_led)))
         = Inr (packConfigRegister rstn unlock sw_led_enable sw_led)
     \<and> fst (hostUtilsGetSignaloidSoCConfigRegisterUnpacked (file_posix e) device
              (snd (S e device rstn unlock sw_led_enable sw_led)))
         = Inr (rstn, unlock, sw_led_enable, sw_led)"
proof -
  let ?w = "packConfigRegister rstn unlock sw_led_enable sw_led"
  let ?W = "hostUtilsWriteToC0microSDPlus (file_posix e) device (bytes_of_uint32 e ?w) 4
              0x01000004 p"
  let ?R = "hostUtilsReadFromC0microSDPlus (file_posix e) device (replicate 4 0) 4 0x01000004
              (snd ?W)"
  have off: "0 \<le> sint (0x01000004 :: off_t)" by simp
  have sz: "unat (4 :: size_t) \<le> MAX_RW_COUNT" by (simp add: MAX_RW_COUNT_def)
  have big: "nat (sint (0x01000004 :: off_t)) + unat (4 :: size_t) \<le> SSIZE_MAX"
    by (simp add: SSIZE_MAX_def)
  have src: "unat (4 :: size_t) \<le> length (bytes_of_uint32 e ?w)"
    by (simp add: length_bytes_of_uint32)
  from file_write_then_read [OF f off sz big src, of e "replicate 4 0"]
  have w: "fst ?W = 4" and r: "fst ?R = 4" and b: "fst (snd ?R) = bytes_of_uint32 e ?w"
    by (simp_all add: length_bytes_of_uint32)
  have s: "S e device rstn unlock sw_led_enable sw_led = (Inr (), snd ?W)"
    using w
    by (simp add: S_def hostUtilsSetSignaloidSoCConfigRegisterUnpacked_def
        hostUtilsSetSignaloidSoCConfigRegister_def sizeof_uint32_t_def
        kSignaloidSoCConstantsConfigOffset_def case_prod_beta file_posix_def)
  have g: "fst (hostUtilsGetSignaloidSoCConfigRegister (file_posix e) device (snd ?W)) = Inr ?w"
    using r b
    by (simp add: hostUtilsGetSignaloidSoCConfigRegister_def sizeof_uint32_t_def
        kSignaloidSoCConstantsConfigOffset_def case_prod_beta uint32_of_bytes_of_uint32
        file_posix_def)
  then have "fst (hostUtilsGetSignaloidSoCConfigRegisterUnpacked (file_posix e) device (snd ?W))
      = Inr (unpackConfigRegister ?w)"
    by (auto simp add: hostUtilsGetSignaloidSoCConfigRegisterUnpacked_def
          split: prod.splits sum.splits)
  with s g show ?thesis by (simp add: unpack_packed_config)
qed

lemma file_get_config_register:
  assumes "files (kernel_state p) device = Some content"
    and "take 4 (drop 0x01000004 content) = bytes_of_uint32 e v"
  shows "fst (hostUtilsGetSignaloidSoCConfigRegister (file_posix e) device p) = Inr v"
proof -
  have off: "0 \<le> sint (0x01000004 :: off_t)" by simp
  have got: "bytes_of_uint32 e v
      = take (min (unat (4 :: size_t)) MAX_RW_COUNT) (drop (nat (sint (0x01000004 :: off_t))) content)"
    using assms(2) by (simp add: MAX_RW_COUNT_def)
  obtain p' where "hostUtilsReadFromC0microSDPlus (file_posix e) device (replicate 4 0) 4 0x01000004 p
       = (word_of_nat (length (bytes_of_uint32 e v)),
          bytes_of_uint32 e v @ drop (length (bytes_of_uint32 e v)) (replicate 4 0), p')"
    using file_raw_read [OF assms(1) off got] by blast
  then show ?thesis
    by (simp add: hostUtilsGetSignaloidSoCConfigRegister_def sizeof_uint32_t_def
        kSignaloidSoCConstantsConfigOffset_def length_bytes_of_uint32 uint32_of_bytes_of_uint32
        file_posix_def)
qed

text \<open>
  C2. For all 16 combinations of \<open>rstn\<close>, \<open>unlock_bitstream_section\<close>, \<open>sw_led_enable\<close>
  and \<open>sw_led\<close>: unpacking, as \<^verbatim>\<open>hostUtilsGetSignaloidSoCConfigRegisterUnpacked\<close> does,
  the word that \<^verbatim>\<open>hostUtilsSetSignaloidSoCConfigRegisterUnpacked\<close> packs from the four
  booleans gives the same four booleans back.
\<close>

theorem config_register_unpack_pack:
  "unpackConfigRegister (packConfigRegister rstn unlock_bitstream_section sw_led_enable sw_led)
     = (rstn, unlock_bitstream_section, sw_led_enable, sw_led)"
  by (cases rstn; cases unlock_bitstream_section; cases sw_led_enable; cases sw_led)
     (simp_all add: unpackConfigRegister_def packConfigRegister_def uint32_of_bool_def
        bool_of_uint32_def)

text \<open>
  C4. The word packed from any four booleans has bits 4 to 31 equal to 0 and is at most
  \<open>0b1111\<close>. It is this word, built from zero and from nothing the register held
  before, that \<^verbatim>\<open>hostUtilsSetSignaloidSoCConfigRegisterUnpacked\<close> hands to
  \<^verbatim>\<open>hostUtilsSetSignaloidSoCConfigRegister\<close>; on a host whose device is a regular file,
  whatever the device held before, the config register read back after the call is this
  word, so no reserved bit of the previous value is preserved.
\<close>

theorem config_register_pack_reserved_bits_zero:
  "drop_bit 4 (packConfigRegister rstn unlock_bitstream_section sw_led_enable sw_led) = 0
   \<and> packConfigRegister rstn unlock_bitstream_section sw_led_enable sw_led AND 0xFFFFFFF0 = 0
   \<and> packConfigRegister rstn unlock_bitstream_section sw_led_enable sw_led \<le> 0b1111
   \<and> hostUtilsSetSignaloidSoCConfigRegisterUnpacked k device rstn unlock_bitstream_section
         sw_led_enable sw_led p
       = hostUtilsSetSignaloidSoCConfigRegister k device
           (packConfigRegister rstn unlock_bitstream_section sw_led_enable sw_led) p
   \<and> (files (kernel_state q) device = Some content
        \<longrightarrow> fst (hostUtilsGetSignaloidSoCConfigRegister (file_posix e) device
                  (snd (hostUtilsSetSignaloidSoCConfigRegisterUnpacked (file_posix e) device rstn
                          unlock_bitstream_section sw_led_enable sw_led q)))
             = Inr (packConfigRegister rstn unlock_bitstream_section sw_led_enable sw_led))"
proof (intro conjI impI)
  show "drop_bit 4 (packConfigRegister rstn unlock_bitstream_section sw_led_enable sw_led) = 0"
    by (cases rstn; cases unlock_bitstream_section; cases sw_led_enable; cases sw_led)
       (simp_all add: packConfigRegister_def uint32_of_bool_def)
  show "packConfigRegister rstn unlock_bitstream_section sw_led_enable sw_led AND 0xFFFFFFF0 = 0"
    by (cases rstn; cases unlock_bitstream_section; cases sw_led_enable; cases sw_led)
       (simp_all add: packConfigRegister_def uint32_of_bool_def)
  show "packConfigRegister rstn unlock_bitstream_section sw_led_enable sw_led \<le> 0b1111"
    by (cases rstn; cases unlock_bitstream_section; cases sw_led_enable; cases sw_led)
       (simp_all add: packConfigRegister_def uint32_of_bool_def)
  show "hostUtilsSetSignaloidSoCConfigRegisterUnpacked k device rstn unlock_bitstream_section
         sw_led_enable sw_led p
       = hostUtilsSetSignaloidSoCConfigRegister k device
           (packConfigRegister rstn unlock_bitstream_section sw_led_enable sw_led) p"
    by (simp add: hostUtilsSetSignaloidSoCConfigRegisterUnpacked_def)
next
  assume "files (kernel_state q) device = Some content"
  then show "fst (hostUtilsGetSignaloidSoCConfigRegister (file_posix e) device
                  (snd (hostUtilsSetSignaloidSoCConfigRegisterUnpacked (file_posix e) device rstn
                          unlock_bitstream_section sw_led_enable sw_led q)))
             = Inr (packConfigRegister rstn unlock_bitstream_section sw_led_enable sw_led)"
    using set_config_unpacked_then_get by blast
qed

theorem config_register_pack_reserved_bits_zero_witness:
  "fst (hostUtilsGetSignaloidSoCConfigRegister (file_posix LittleEndian) ''/dev/sdb''
          (fresh_process [''/dev/sdb'' \<mapsto> replicate 0x01000004 0 @ [0xFF, 0xFF, 0xFF, 0xFF]]))
     = Inr 0xFFFFFFFF
   \<and> fst (hostUtilsGetSignaloidSoCConfigRegister (file_posix LittleEndian) ''/dev/sdb''
          (snd (hostUtilsSetSignaloidSoCConfigRegisterUnpacked (file_posix LittleEndian)
                  ''/dev/sdb'' True False True False
                  (fresh_process
                     [''/dev/sdb'' \<mapsto> replicate 0x01000004 0 @ [0xFF, 0xFF, 0xFF, 0xFF]]))))
     = Inr 0b0101"
proof -
  let ?c = "replicate 0x01000004 0 @ [0xFF, 0xFF, 0xFF, 0xFF :: byte]"
  have f: "files (kernel_state (fresh_process [''/dev/sdb'' \<mapsto> ?c])) ''/dev/sdb'' = Some ?c"
    by (simp add: fresh_process_def)
  have b: "take 4 (drop 0x01000004 ?c) = bytes_of_uint32 LittleEndian 0xFFFFFFFF"
    by (simp add: bytes_of_uint32_def)
  have before: "fst (hostUtilsGetSignaloidSoCConfigRegister (file_posix LittleEndian) ''/dev/sdb''
          (fresh_process [''/dev/sdb'' \<mapsto> ?c])) = Inr 0xFFFFFFFF"
    using file_get_config_register [OF f b] .
  have "packConfigRegister True False True False = 0b0101"
    by (simp add: packConfigRegister_def uint32_of_bool_def)
  with config_register_pack_reserved_bits_zero [where e = LittleEndian and rstn = True
      and unlock_bitstream_section = False and sw_led_enable = True and sw_led = False,
      THEN conjunct2, THEN conjunct2, THEN conjunct2, THEN conjunct2, rule_format, OF f]
  have "fst (hostUtilsGetSignaloidSoCConfigRegister (file_posix LittleEndian) ''/dev/sdb''
          (snd (hostUtilsSetSignaloidSoCConfigRegisterUnpacked (file_posix LittleEndian)
                  ''/dev/sdb'' True False True False (fresh_process [''/dev/sdb'' \<mapsto> ?c]))))
     = Inr 0b0101"
    by simp
  with before show ?thesis by (rule conjI)
qed

subsection \<open>Short reads\<close>

text \<open>
  C6. On a host whose device is a regular file: when fewer bytes than requested lie
  between the offset and the end of the backing store (in particular when the whole
  backing store is smaller than the requested size), the raw read returns the number of
  bytes it has read, which is not negative and strictly less than the requested size,
  stores these bytes at the start of the destination buffer, and flags the condition as an
  error through \<^verbatim>\<open>perror\<close>.
\<close>

theorem raw_read_short:
  fixes e :: endianness and device :: string and p :: "filesys process"
    and destBuffer :: "byte list" and bufferSize :: size_t and offset :: off_t
  defines "R \<equiv> hostUtilsReadFromC0microSDPlus (file_posix e) device destBuffer bufferSize offset p"
  defines "nread \<equiv> fst R" and "destBuffer' \<equiv> fst (snd R)" and "p' \<equiv> snd (snd R)"
  assumes f: "files (kernel_state p) device = Some content"
    and off: "0 \<le> sint offset"
    and short: "length content - nat (sint offset) < unat bufferSize"
    and avail: "avail = min (length content - nat (sint offset)) MAX_RW_COUNT"
  shows "nread = word_of_nat avail \<and> 0 \<le> sint nread \<and> sint nread = int avail
       \<and> unat nread < unat bufferSize \<and> nread \<noteq> -1
       \<and> destBuffer' = take avail (drop (nat (sint offset)) content) @ drop avail destBuffer
       \<and> stderr_log p' = stderr_log p @ [''Error reading data from the device'']"
proof -
  let ?got = "take (min (unat bufferSize) MAX_RW_COUNT) (drop (nat (sint offset)) content)"
  have len: "length ?got = avail" using short avail by (simp add: min_def)
  have small: "avail < 2 ^ 63" using avail by (simp add: MAX_RW_COUNT_def min_def)
  have lt: "avail < unat bufferSize" using short avail by simp
  have tk: "?got = take avail (drop (nat (sint offset)) content)"
    using short avail by (simp add: min_def)
  have s: "sint (word_of_nat avail :: 64 word) = int avail"
    using small by (rule sint_word_of_nat_small)
  have u: "unat (word_of_nat avail :: 64 word) = avail"
    using small by (simp add: unat_of_nat)
  from u lt have neq: "(word_of_nat avail :: 64 word) \<noteq> bufferSize" by auto
  obtain q where
    "R = (word_of_nat (length ?got), ?got @ drop (length ?got) destBuffer, q)"
    and "stderr_log q = stderr_log p
       @ (if word_of_nat (length ?got) \<noteq> bufferSize then [''Error reading data from the device''] else [])"
    using file_raw_read [OF f off refl] unfolding R_def by blast
  with len neq have n: "nread = word_of_nat avail"
    and d: "destBuffer' = ?got @ drop avail destBuffer"
    and l: "stderr_log p' = stderr_log p @ [''Error reading data from the device'']"
    unfolding nread_def destBuffer'_def p'_def by simp_all
  from s n have "0 \<le> sint nread" "sint nread = int avail" by simp_all
  moreover from this have "nread \<noteq> -1" by auto
  moreover from u n lt have "unat nread < unat bufferSize" by simp
  ultimately show ?thesis using n d l tk by simp
qed

theorem raw_read_short_witness:
  "length [1, 2 :: byte] < unat (4 :: size_t)
   \<and> fst (hostUtilsReadFromC0microSDPlus (file_posix LittleEndian) ''/dev/sdb'' [9, 9, 9, 9] 4 0
          (fresh_process [''/dev/sdb'' \<mapsto> [1, 2]])) = 2
   \<and> fst (snd (hostUtilsReadFromC0microSDPlus (file_posix LittleEndian) ''/dev/sdb'' [9, 9, 9, 9]
          4 0 (fresh_process [''/dev/sdb'' \<mapsto> [1, 2]]))) = [1, 2, 9, 9]
   \<and> stderr_log (snd (snd (hostUtilsReadFromC0microSDPlus (file_posix LittleEndian) ''/dev/sdb''
          [9, 9, 9, 9] 4 0 (fresh_process [''/dev/sdb'' \<mapsto> [1, 2]]))))
       = [''Error reading data from the device'']"
proof -
  have u: "unat (4 :: size_t) = 4" by simp
  have f: "files (kernel_state (fresh_process [''/dev/sdb'' \<mapsto> [1, 2]])) ''/dev/sdb''
             = Some [1, 2]"
    by (simp add: fresh_process_def)
  have off: "0 \<le> sint (0 :: off_t)" by simp
  have short: "length [1, 2 :: byte] - nat (sint (0 :: off_t)) < unat (4 :: size_t)"
    unfolding u by simp
  have avail: "2 = min (length [1, 2 :: byte] - nat (sint (0 :: off_t))) MAX_RW_COUNT"
    by (simp add: MAX_RW_COUNT_def)
  have "length [1, 2 :: byte] < unat (4 :: size_t)" unfolding u by simp
  with raw_read_short [where e = LittleEndian and destBuffer = "[9, 9, 9, 9]",
      OF f off short avail]
  show ?thesis by (simp add: fresh_process_def)
qed

lemma alloc_fd_release:
  "alloc_fd t d = (n, t') \<Longrightarrow> filter (\<lambda>x. x \<noteq> None) (t'[n := None]) = filter (\<lambda>x. x \<noteq> None) t"
proof (induction t d arbitrary: n t' rule: alloc_fd.induct)
  case (3 e t d)
  then show ?case by (auto split: prod.splits)
qed auto

lemma raw_read_handles:
  "open_handles (snd (snd (hostUtilsReadFromC0microSDPlus k device destBuffer bufferSize offset p)))
     = open_handles p"
  by (simp add: hostUtilsReadFromC0microSDPlus_def 
        posix_open_def posix_lseek_def posix_read_def posix_close_def perror_def
        Let_def case_prod_beta split: option.splits)

lemma raw_write_handles:
  "open_handles (snd (hostUtilsWriteToC0microSDPlus k device sourceBuffer bufferSize offset p))
     = open_handles p"
  by (simp add: hostUtilsWriteToC0microSDPlus_def
        posix_open_def posix_lseek_def posix_write_def posix_close_def perror_def
        Let_def case_prod_beta split: option.splits)

lemma file_raw_read_table:
  "open_descriptions (snd (snd (hostUtilsReadFromC0microSDPlus (file_posix e) device destBuffer
       bufferSize offset p))) = open_descriptions p"
proof (cases "files (kernel_state p) device")
  case None
  then show ?thesis
    by (simp add: raw_read_result file_posix_def file_open_def open_descriptions_def)
next
  case (Some content)
  obtain fd t where a: "alloc_fd (fdtab (kernel_state p))
        \<lparr>of_path = device, of_pos = 0, of_flags = {O_RDONLY, O_SYNC, O_DSYNC}\<rparr> = (fd, t)"
    by (cases "alloc_fd (fdtab (kernel_state p))
        \<lparr>of_path = device, of_pos = 0, of_flags = {O_RDONLY, O_SYNC, O_DSYNC}\<rparr>")
  from alloc_fd_slot [OF a] alloc_fd_release [OF a] a Some show ?thesis
    by (simp add: raw_read_result file_posix_def file_open_def file_lseek_def file_read_def
        file_close_def lookup_fd_def open_descriptions_def Let_def)
qed

lemma file_raw_write_table:
  "open_descriptions (snd (hostUtilsWriteToC0microSDPlus (file_posix e) device sourceBuffer
       bufferSize offset p)) = open_descriptions p"
proof (cases "files (kernel_state p) device")
  case None
  then show ?thesis
    by (simp add: raw_write_result file_posix_def file_open_def open_descriptions_def)
next
  case (Some content)
  obtain fd t where a: "alloc_fd (fdtab (kernel_state p))
        \<lparr>of_path = device, of_pos = 0, of_flags = {O_WRONLY, O_SYNC, O_DSYNC}\<rparr> = (fd, t)"
    by (cases "alloc_fd (fdtab (kernel_state p))
        \<lparr>of_path = device, of_pos = 0, of_flags = {O_WRONLY, O_SYNC, O_DSYNC}\<rparr>")
  from alloc_fd_slot [OF a] alloc_fd_release [OF a] a Some show ?thesis
    by (simp add: raw_write_result file_posix_def file_open_def file_lseek_def file_write_def
        file_close_def lookup_fd_def open_descriptions_def Let_def)
qed

subsection \<open>Descriptors are closed\<close>

text \<open>
  C9. For every host and every invocation of the raw read or the raw write, whatever the
  outcome (success, failure of \<^verbatim>\<open>open\<close>, failure of \<^verbatim>\<open>lseek\<close>, short or failed
  transfer), the process holds exactly the descriptors after the call that it held before
  it: the descriptor the call has opened is closed again. On the regular-file host the
  kernel's table holds the same open file descriptions after the call as before.
\<close>

theorem raw_transaction_closes_handle:
  "open_handles (snd (snd (hostUtilsReadFromC0microSDPlus k device destBuffer bufferSize offset p)))
     = open_handles p
   \<and> open_handles (snd (hostUtilsWriteToC0microSDPlus k device sourceBuffer bufferSize offset p))
     = open_handles p
   \<and> open_descriptions (snd (snd (hostUtilsReadFromC0microSDPlus (file_posix e) device
         destBuffer bufferSize offset q))) = open_descriptions q
   \<and> open_descriptions (snd (hostUtilsWriteToC0microSDPlus (file_posix e) device sourceBuffer
         bufferSize offset q)) = open_descriptions q"
  by (simp only: raw_read_handles raw_write_handles file_raw_read_table file_raw_write_table)

subsection \<open>The status register\<close>

lemma file_get_status_register:
  assumes "files (kernel_state p) device = Some content"
    and "take 4 (drop 0x0100000C content) = bytes_of_uint32 e v"
  shows "fst (hostUtilsGetSignaloidSoCStatusRegister (file_posix e) device p) = Inr v"
proof -
  have off: "0 \<le> sint (0x0100000C :: off_t)" by simp
  have got: "bytes_of_uint32 e v
      = take (min (unat (4 :: size_t)) MAX_RW_COUNT) (drop (nat (sint (0x0100000C :: off_t))) content)"
    using assms(2) by (simp add: MAX_RW_COUNT_def)
  obtain p' where "hostUtilsReadFromC0microSDPlus (file_posix e) device (replicate 4 0) 4 0x0100000C p
       = (word_of_nat (length (bytes_of_uint32 e v)),
          bytes_of_uint32 e v @ drop (length (bytes_of_uint32 e v)) (replicate 4 0), p')"
    using file_raw_read [OF assms(1) off got] by blast
  then show ?thesis
    by (simp add: hostUtilsGetSignaloidSoCStatusRegister_def sizeof_uint32_t_def 
        kSignaloidSoCConstantsStatusOffset_def length_bytes_of_uint32 uint32_of_bytes_of_uint32
        file_posix_def)
qed

text \<open>
  C7. On a host whose device is a regular file: if the 4 bytes at the status-register
  offset \<open>0x0100000C\<close> of the backing store are the 32-bit value 2 in the byte order of
  the host, then \<^verbatim>\<open>hostUtilsGetSignaloidSoCStatusRegister\<close> returns, and what it returns
  is \<^verbatim>\<open>kSignaloidSoCStatusDone\<close>.
\<close>

theorem get_status_register_done:
  assumes "files (kernel_state p) device = Some content"
    and "take 4 (drop 0x0100000C content) = bytes_of_uint32 e 2"
  shows "fst (hostUtilsGetSignaloidSoCStatusRegister (file_posix e) device p)
           = Inr kSignaloidSoCStatusDone"
  using file_get_status_register [OF assms] by (simp add: kSignaloidSoCStatusDone_def)

theorem get_status_register_done_witness:
  "take 4 (drop 0x0100000C (replicate 0x0100000C 0 @ [2, 0, 0, 0 :: byte]))
       = bytes_of_uint32 LittleEndian 2
   \<and> fst (hostUtilsGetSignaloidSoCStatusRegister (file_posix LittleEndian) ''/dev/sdb''
          (fresh_process [''/dev/sdb'' \<mapsto> replicate 0x0100000C 0 @ [2, 0, 0, 0]]))
       = Inr kSignaloidSoCStatusDone"
proof -
  have f: "files (kernel_state (fresh_process [''/dev/sdb'' \<mapsto> replicate 0x0100000C 0 @ [2, 0, 0, 0]]))
             ''/dev/sdb'' = Some (replicate 0x0100000C 0 @ [2, 0, 0, 0])"
    by (simp add: fresh_process_def)
  have b: "take 4 (drop 0x0100000C (replicate 0x0100000C 0 @ [2, 0, 0, 0 :: byte]))
       = bytes_of_uint32 LittleEndian 2"
    by (simp add: bytes_of_uint32_def)
  show ?thesis by (rule conjI [OF b get_status_register_done [OF f b]])
qed

text \<open>
  C10. For every 32-bit value \<open>v\<close>, inside or outside the four enumerators: if the 4
  bytes at the status-register offset of the device are \<open>v\<close> in the byte order of the
  host, \<^verbatim>\<open>hostUtilsGetSignaloidSoCStatusRegister\<close> returns \<open>v\<close> unchanged. On any host, a
  raw read that transfers all 4 bytes makes the operation return the value of these
  bytes: no range is checked and no value is turned into an error.
\<close>

theorem get_status_register_no_validation:
  fixes k :: "'k posix"
  assumes "files (kernel_state p) device = Some content"
    and "take 4 (drop 0x0100000C content) = bytes_of_uint32 e v"
  shows "fst (hostUtilsGetSignaloidSoCStatusRegister (file_posix e) device p) = Inr v
     \<and> (fst (hostUtilsReadFromC0microSDPlus k device' (replicate 4 0) 4 0x0100000C q) = 4
          \<longrightarrow> fst (hostUtilsGetSignaloidSoCStatusRegister k device' q)
               = Inr (uint32_of_bytes (byte_order k)
                   (fst (snd (hostUtilsReadFromC0microSDPlus k device' (replicate 4 0) 4
                      0x0100000C q)))))"
proof (intro conjI impI)
  show "fst (hostUtilsGetSignaloidSoCStatusRegister (file_posix e) device p) = Inr v"
    using assms by (rule file_get_status_register)
next
  assume "fst (hostUtilsReadFromC0microSDPlus k device' (replicate 4 0) 4 0x0100000C q) = 4"
  then show "fst (hostUtilsGetSignaloidSoCStatusRegister k device' q)
               = Inr (uint32_of_bytes (byte_order k)
                   (fst (snd (hostUtilsReadFromC0microSDPlus k device' (replicate 4 0) 4
                      0x0100000C q))))"
    by (simp add: hostUtilsGetSignaloidSoCStatusRegister_def sizeof_uint32_t_def 
        kSignaloidSoCConstantsStatusOffset_def case_prod_beta)
qed

theorem get_status_register_no_validation_witness:
  "take 4 (drop 0x0100000C (replicate 0x0100000C 0 @ [0xEF, 0xBE, 0xAD, 0xDE :: byte]))
       = bytes_of_uint32 LittleEndian 0xDEADBEEF
   \<and> fst (hostUtilsGetSignaloidSoCStatusRegister (file_posix LittleEndian) ''/dev/sdb''
          (fresh_process [''/dev/sdb'' \<mapsto> replicate 0x0100000C 0 @ [0xEF, 0xBE, 0xAD, 0xDE]]))
       = Inr 0xDEADBEEF
   \<and> fst (hostUtilsGetSignaloidSoCStatusRegister (file_posix BigEndian) ''/dev/sdb''
          (fresh_process [''/dev/sdb'' \<mapsto> replicate 0x0100000C 0 @ [0xEF, 0xBE, 0xAD, 0xDE]]))
       = Inr 0xEFBEADDE
   \<and> fst (hostUtilsReadFromC0microSDPlus (file_posix LittleEndian) ''/dev/sdb'' (replicate 4 0) 4
          0x0100000C
          (fresh_process [''/dev/sdb'' \<mapsto> replicate 0x0100000C 0 @ [0xEF, 0xBE, 0xAD, 0xDE]]))
       = 4
   \<and> fst (hostUtilsGetSignaloidSoCStatusRegister (file_posix LittleEndian) ''/dev/sdb''
          (fresh_process [''/dev/sdb'' \<mapsto> replicate 0x0100000C 0 @ [0xEF, 0xBE, 0xAD, 0xDE]]))
       = Inr (uint32_of_bytes LittleEndian [0xEF, 0xBE, 0xAD, 0xDE])"
proof -
  let ?c = "replicate 0x0100000C 0 @ [0xEF, 0xBE, 0xAD, 0xDE :: byte]"
  let ?p = "fresh_process [''/dev/sdb'' \<mapsto> ?c]"
  let ?R = "hostUtilsReadFromC0microSDPlus (file_posix LittleEndian) ''/dev/sdb'' (replicate 4 0)
              4 0x0100000C ?p"
  have f: "files (kernel_state ?p) ''/dev/sdb'' = Some ?c"
    by (simp add: fresh_process_def)
  have b: "take 4 (drop 0x0100000C ?c) = bytes_of_uint32 LittleEndian 0xDEADBEEF"
    by (simp add: bytes_of_uint32_def)
  have b': "take 4 (drop 0x0100000C ?c) = bytes_of_uint32 BigEndian 0xEFBEADDE"
    by (simp add: bytes_of_uint32_def)
  have off: "0 \<le> sint (0x0100000C :: off_t)" by simp
  have got: "[0xEF, 0xBE, 0xAD, 0xDE]
      = take (min (unat (4 :: size_t)) MAX_RW_COUNT) (drop (nat (sint (0x0100000C :: off_t))) ?c)"
    by (simp add: MAX_RW_COUNT_def)
  obtain p' where "?R = (word_of_nat (length [0xEF, 0xBE, 0xAD, 0xDE :: byte]),
      [0xEF, 0xBE, 0xAD, 0xDE] @ drop (length [0xEF, 0xBE, 0xAD, 0xDE :: byte]) (replicate 4 0), p')"
    using file_raw_read [OF f off got] by blast
  then have r: "fst ?R = 4" and d: "fst (snd ?R) = [0xEF, 0xBE, 0xAD, 0xDE]"
    by simp_all
  have g: "fst (hostUtilsGetSignaloidSoCStatusRegister (file_posix LittleEndian) ''/dev/sdb'' ?p)
       = Inr (uint32_of_bytes LittleEndian [0xEF, 0xBE, 0xAD, 0xDE])"
    using get_status_register_no_validation [OF f b, THEN conjunct2, rule_format,
        where k = "file_posix LittleEndian" and device' = "''/dev/sdb''" and q = ?p, OF r]
    unfolding d by (simp add: file_posix_def)
  show ?thesis
    by (rule conjI [OF b conjI [OF get_status_register_no_validation [OF f b, THEN conjunct1]
          conjI [OF get_status_register_no_validation [OF f b', THEN conjunct1]
            conjI [OF r g]]]])
qed

subsection \<open>The address map\<close>

text \<open>
  C8. The offsets and the status values have the values of the external interface:
  command register \<open>0x01000000\<close>, config register \<open>0x01000004\<close>, boot-address register
  \<open>0x01000008\<close>, status register \<open>0x0100000C\<close>, MMIO data buffer \<open>0x01004000\<close> of 8192
  bytes; waiting-for-command 0, calculating 1, done 2, invalid-command 3. Each typed
  operation is one raw transaction at the offset of its register, of 4 bytes for a
  register and of 8192 bytes for the data buffer.
\<close>

theorem address_map_and_register_transactions:
  "kSignaloidSoCConstantsCommandOffset = 0x01000000
   \<and> kSignaloidSoCConstantsConfigOffset = 0x01000004
   \<and> kSignaloidSoCConstantsBootAddressOffset = 0x01000008
   \<and> kSignaloidSoCConstantsStatusOffset = 0x0100000C
   \<and> kSignaloidSoCConstantsMMIOBufferOffset = 0x01004000
   \<and> kSignaloidSoCConstantsMMIOBufferSizeBytes = 8192
   \<and> kSignaloidSoCStatusWaitingForCommand = 0
   \<and> kSignaloidSoCStatusCalculating = 1
   \<and> kSignaloidSoCStatusDone = 2
   \<and> kSignaloidSoCStatusInvalidCommand = 3
   \<and> hostUtilsReadSignaloidSoCMMIOBuffer k device destBuffer p
       = (case hostUtilsReadFromC0microSDPlus k device destBuffer 8192 0x01004000 p of
            (res, buf, p') \<Rightarrow>
              if res \<noteq> 8192 then (Inl (ProcessExit EXIT_FAILURE), p') else (Inr buf, p'))
   \<and> hostUtilsWriteSignaloidSoCMMIOBuffer k device sourceBuffer p
       = (case hostUtilsWriteToC0microSDPlus k device sourceBuffer 8192 0x01004000 p of
            (res, p') \<Rightarrow>
              if res \<noteq> 8192 then (Inl (ProcessExit EXIT_FAILURE), p') else (Inr (), p'))
   \<and> hostUtilsGetSignaloidSoCConfigRegister k device p
       = (case hostUtilsReadFromC0microSDPlus k device (replicate 4 0) 4 0x01000004 p of
            (res, buf, p') \<Rightarrow>
              if res \<noteq> 4 then (Inl (ProcessExit EXIT_FAILURE), p')
              else (Inr (uint32_of_bytes (byte_order k) buf), p'))
   \<and> hostUtilsSetSignaloidSoCConfigRegister k device config p
       = (case hostUtilsWriteToC0microSDPlus k device (bytes_of_uint32 (byte_order k) config) 4
                 0x01000004 p of
            (res, p') \<Rightarrow>
              if res \<noteq> 4 then (Inl (ProcessExit EXIT_FAILURE), p') else (Inr (), p'))
   \<and> hostUtilsGetSignaloidSoCConfigRegisterUnpacked k device p
       = (case hostUtilsReadFromC0microSDPlus k device (replicate 4 0) 4 0x01000004 p of
            (res, buf, p') \<Rightarrow>
              if res \<noteq> 4 then (Inl (ProcessExit EXIT_FAILURE), p')
              else (Inr (unpackConfigRegister (uint32_of_bytes (byte_order k) buf)), p'))
   \<and> hostUtilsSetSignaloidSoCConfigRegisterUnpacked k device rstn unlock_bitstream_section
         sw_led_enable sw_led p
       = (case hostUtilsWriteToC0microSDPlus k device
                 (bytes_of_uint32 (byte_order k)
                    (packConfigRegister rstn unlock_bitstream_section sw_led_enable sw_led))
                 4 0x01000004 p of
            (res, p') \<Rightarrow>
              if res \<noteq> 4 then (Inl (ProcessExit EXIT_FAILURE), p') else (Inr (), p'))
   \<and> hostUtilsSetSignaloidSoCCommandRegister k device command p
       = (case hostUtilsWriteToC0microSDPlus k device (bytes_of_uint32 (byte_order k) command) 4
                 0x01000000 p of
            (res, p') \<Rightarrow>
              if res \<noteq> 4 then (Inl (ProcessExit EXIT_FAILURE), p') else (Inr (), p'))
   \<and> hostUtilsGetSignaloidSoCStatusRegister k device p
       = (case hostUtilsReadFromC0microSDPlus k device (replicate 4 0) 4 0x0100000C p of
            (res, buf, p') \<Rightarrow>
              if res \<noteq> 4 then (Inl (ProcessExit EXIT_FAILURE), p')
              else (Inr (uint32_of_bytes (byte_order k) buf), p'))
   \<and> hostUtilsGetSignaloidSoCBootAddressRegister k device p
       = (case hostUtilsReadFromC0microSDPlus k device (replicate 4 0) 4 0x01000008 p of
            (res, buf, p') \<Rightarrow>
              if res \<noteq> 4 then (Inl (ProcessExit EXIT_FAILURE), p')
              else (Inr (uint32_of_bytes (byte_order k) buf), p'))
   \<and> hostUtilsSetSignaloidSoCBootAddressRegister k device bootAddress p
       = (case hostUtilsWriteToC0microSDPlus k device (bytes_of_uint32 (byte_order k) bootAddress)
                 4 0x01000008 p of
            (res, p') \<Rightarrow>
              if res \<noteq> 4 then (Inl (ProcessExit EXIT_FAILURE), p') else (Inr (), p'))"
  by (intro conjI;
      simp add: register_defs offset_defs sint_eq_8192 case_prod_beta
        kSignaloidSoCConstantsMMIOBufferSizeBytes_def kSignaloidSoCStatusWaitingForCommand_def
        kSignaloidSoCStatusCalculating_def kSignaloidSoCStatusDone_def
        kSignaloidSoCStatusInvalidCommand_def)

end
